(* ===== verification/Prelude.thy ===== *)
theory Prelude
  imports Complex_Main
begin

text \<open>
  Python-level vocabulary shared by every component of the model of
  \<^verbatim>\<open>src/custom_components/mawaqit/mawaqit_wrapper.py\<close>: the exception classes the
  module raises or catches, with the \<^verbatim>\<open>except\<close> clauses as class tests; Python
  truthiness and \<^verbatim>\<open>str()\<close> of optional strings; JSON payloads; log levels and
  arguments. It also declares the fact collections the component theories fill
  and the generic list lemmas the trace proofs share.
\<close>

named_theorems py_simps "evaluation rules of the Python-level helpers"
named_theorems lib_simps "characteristic equations of the client library operations"
named_theorems op_simps "characteristic equations of the wrapper's operations"

section \<open>Exceptions\<close>

text \<open>
  One constructor per exception class that reaches this module. The class
  hierarchy is what the \<^verbatim>\<open>except\<close> clauses test:
  \<^item> \<open>BadCredentialsException\<close>, \<open>NotAuthenticatedException\<close>: \<^verbatim>\<open>mawaqit.consts\<close>;
  \<^item> \<open>ConnectionError\<close>, \<open>TimeoutError\<close>: the builtins (\<^verbatim>\<open>asyncio.TimeoutError\<close> is
    \<^verbatim>\<open>TimeoutError\<close> since Python 3.11);
  \<^item> \<open>ClientError\<close>: an \<^verbatim>\<open>aiohttp.ClientError\<close> that is no builtin network error
    (\<^verbatim>\<open>ClientConnectorError\<close>, \<^verbatim>\<open>ContentTypeError\<close>, ...);
  \<^item> \<open>ServerTimeoutError\<close>: \<^verbatim>\<open>aiohttp.ServerTimeoutError\<close>, both an
    \<^verbatim>\<open>aiohttp.ClientError\<close> and a \<^verbatim>\<open>TimeoutError\<close>;
  \<^item> \<open>ValueError\<close>: e.g. \<^verbatim>\<open>json.JSONDecodeError\<close> from \<^verbatim>\<open>response.json()\<close>;
  \<^item> \<open>CancelledError\<close>: \<^verbatim>\<open>asyncio.CancelledError\<close>, a \<^verbatim>\<open>BaseException\<close> that
    \<^verbatim>\<open>except Exception\<close> does not catch;
  \<^item> \<open>OtherException\<close>: any other \<^verbatim>\<open>Exception\<close>, by name.
\<close>

datatype exn =
    BadCredentialsException
  | NotAuthenticatedException
  | ConnectionError
  | TimeoutError
  | ClientError
  | ServerTimeoutError
  | ValueError
  | CancelledError
  | OtherException string

text \<open>\<^verbatim>\<open>except (BadCredentialsException, NotAuthenticatedException)\<close>\<close>

fun is_auth_exn :: "exn \<Rightarrow> bool" where
  "is_auth_exn BadCredentialsException = True"
| "is_auth_exn NotAuthenticatedException = True"
| "is_auth_exn _ = False"

text \<open>\<^verbatim>\<open>except (ConnectionError, TimeoutError)\<close>\<close>

fun is_network_exn :: "exn \<Rightarrow> bool" where
  "is_network_exn ConnectionError = True"
| "is_network_exn TimeoutError = True"
| "is_network_exn ServerTimeoutError = True"
| "is_network_exn _ = False"

text \<open>\<^verbatim>\<open>except aiohttp.ClientError\<close>\<close>

fun is_client_error :: "exn \<Rightarrow> bool" where
  "is_client_error ClientError = True"
| "is_client_error ServerTimeoutError = True"
| "is_client_error _ = False"

text \<open>\<^verbatim>\<open>except Exception\<close>: everything but the \<^verbatim>\<open>BaseException\<close>s.\<close>

fun is_exception :: "exn \<Rightarrow> bool" where
  "is_exception CancelledError = False"
| "is_exception _ = True"

section \<open>Python values\<close>

text \<open>
  Optional strings (\<^verbatim>\<open>None\<close> or a \<^verbatim>\<open>str\<close>) are \<open>string option\<close>. Python's
  truth test makes \<^verbatim>\<open>None\<close> and \<^verbatim>\<open>""\<close> false; an f-string renders \<^verbatim>\<open>None\<close>
  as the text \<^verbatim>\<open>None\<close>.
\<close>

definition py_truthy :: "string option \<Rightarrow> bool" where
  "py_truthy s = (case s of None \<Rightarrow> False | Some x \<Rightarrow> x \<noteq> [])"

primrec py_str :: "string option \<Rightarrow> string" where
  "py_str None = ''None''"
| "py_str (Some s) = s"

text \<open>
  Decoded JSON. \<^verbatim>\<open>JNull\<close> is Python's \<^verbatim>\<open>None\<close> as well: the prayer-time calendar
  variable \<^verbatim>\<open>dict_calendar\<close> starts as \<^verbatim>\<open>None\<close>, which is \<open>JNull\<close> here.
\<close>

datatype json =
    JNull
  | JBool bool
  | JInt int
  | JStr string
  | JArr "json list"
  | JObj "(string \<times> json) list"

text \<open>Coordinates are passed through untouched; Python floats are read as reals.\<close>

type_synonym coord = real

datatype level = Debug | Warning | Error

text \<open>The \<^verbatim>\<open>%s\<close> arguments of a log call.\<close>

datatype log_arg = AStr "string option" | ANat nat | AExn exn

text \<open>The text between a known prefix and suffix, if the list has both.\<close>

definition strip_around :: "'a list \<Rightarrow> 'a list \<Rightarrow> 'a list \<Rightarrow> 'a list option" where
  "strip_around pre suf xs =
     (if length pre + length suf \<le> length xs \<and> take (length pre) xs = pre
         \<and> drop (length xs - length suf) xs = suf
      then Some (take (length xs - length pre - length suf) (drop (length pre) xs))
      else None)"

section \<open>Lemmas on the helpers\<close>

lemma py_truthy_simps [simp, py_simps]:
  "\<not> py_truthy None"
  "py_truthy (Some s) \<longleftrightarrow> s \<noteq> []"
  by (simp_all add: py_truthy_def)

lemma py_truthy_iff: "py_truthy s \<longleftrightarrow> (\<exists>x. s = Some x \<and> x \<noteq> [])"
  by (cases s) simp_all

lemma auth_exn_is_exception [intro]: "is_auth_exn e \<Longrightarrow> is_exception e"
  by (cases e) simp_all

lemma network_exn_is_exception [intro]: "is_network_exn e \<Longrightarrow> is_exception e"
  by (cases e) simp_all

lemma client_error_is_exception [intro]: "is_client_error e \<Longrightarrow> is_exception e"
  by (cases e) simp_all

lemma auth_not_network [dest]: "is_auth_exn e \<Longrightarrow> is_network_exn e \<Longrightarrow> False"
  by (cases e) simp_all

lemma auth_not_client_error [dest]: "is_auth_exn e \<Longrightarrow> is_client_error e \<Longrightarrow> False"
  by (cases e) simp_all

lemma is_exception_iff [py_simps]: "is_exception e \<longleftrightarrow> e \<noteq> CancelledError"
  by (cases e) simp_all

lemma strip_around_append: "strip_around pre suf (pre @ x @ suf) = Some x"
  by (simp add: strip_around_def)

end
