(* ===== verification/Client.thy ===== *)
theory Client
  imports Prelude
begin

text \<open>
  The collaborators the wrapper calls but does not implement, modelled from the
  spec (their code is not in the repository): the \<^verbatim>\<open>AsyncMawaqitClient\<close> of the
  \<^verbatim>\<open>mawaqit\<close> package (its fields as the record \<open>client\<close>, its methods
  \<^verbatim>\<open>login\<close>, \<^verbatim>\<open>get_api_token\<close>, \<^verbatim>\<open>all_mosques_neighborhood\<close>,
  \<^verbatim>\<open>fetch_mosques_by_keyword\<close>, \<^verbatim>\<open>fetch_prayer_times\<close> and \<^verbatim>\<open>close\<close>) and the
  network itself. The network is an oracle, the record \<open>env\<close>: it says how the
  service answers each request, and every theorem of the development holds for
  every \<open>env\<close>. Every effect is an \<open>event\<close> appended to the trace an operation
  returns.
\<close>

section \<open>The client object\<close>

record client =
  c_latitude :: "coord option"
  c_longitude :: "coord option"
  c_mosque :: "string option"
  c_username :: "string option"
  c_password :: "string option"
  c_token :: "string option"

text \<open>\<^verbatim>\<open>AsyncMawaqitClient(latitude, longitude, mosque, username, password, token)\<close>:
  the constructor stores its arguments and does no I/O.\<close>

definition new_client ::
  "coord option \<Rightarrow> coord option \<Rightarrow> string option \<Rightarrow> string option \<Rightarrow> string option \<Rightarrow>
   string option \<Rightarrow> client" where
  "new_client lat lon m u p t =
     \<lparr>c_latitude = lat, c_longitude = lon, c_mosque = m,
      c_username = u, c_password = p, c_token = t\<rparr>"

section \<open>Observable events\<close>

text \<open>
  \<open>Construct c\<close>: a client object is created; \<open>Login u p\<close>: the library's login
  request; \<open>CallNeighborhood\<close>, \<open>CallKeyword k\<close>, \<open>CallPrayerTimes\<close>: the library's
  domain requests; \<open>HttpGet url headers timeout\<close>: the wrapper's own aiohttp
  request; \<open>Close\<close>: \<^verbatim>\<open>await client.close()\<close>; \<open>Log lvl fmt args\<close>: a
  \<^verbatim>\<open>_LOGGER\<close> call with its format string and arguments.
\<close>

datatype event =
    Construct client
  | Login "string option" "string option"
  | CallNeighborhood
  | CallKeyword string
  | CallPrayerTimes
  | HttpGet string "(string \<times> string) list" nat
  | Close
  | Log level string "log_arg list"

type_synonym trace = "event list"

section \<open>The network as an oracle\<close>

text \<open>An HTTP response: its status and what \<^verbatim>\<open>await response.json()\<close> gives.\<close>

record response =
  resp_status :: nat
  resp_json :: "exn + json"

text \<open>
  How the service answers: the login for a username and password; the
  neighbourhood and keyword listings and the library's prayer-time request for
  the client's state (its token and mosque), the last also giving the mosque the
  client holds afterwards (the library may resolve one); a direct HTTP GET for a
  URL, headers and timeout. \<open>Inl\<close> is the exception the call raises.
\<close>

record env =
  login_result :: "string option \<Rightarrow> string option \<Rightarrow> exn + string"
  neighborhood_result :: "client \<Rightarrow> exn + json list"
  keyword_result :: "string \<Rightarrow> client \<Rightarrow> exn + json list"
  prayer_result :: "client \<Rightarrow> (exn + json) \<times> string option"
  http_result :: "string \<Rightarrow> (string \<times> string) list \<Rightarrow> nat \<Rightarrow> exn + response"

section \<open>Library methods\<close>

text \<open>A library method on a client: its outcome, the client after it, its events.\<close>

type_synonym 'a lib_out = "(exn + 'a) \<times> client \<times> trace"

text \<open>\<^verbatim>\<open>await client.login()\<close>: one request; on success the token is stored.\<close>

definition lib_login :: "env \<Rightarrow> client \<Rightarrow> unit lib_out" where
  "lib_login E c =
     (let ev = [Login (c_username c) (c_password c)]
      in case login_result E (c_username c) (c_password c) of
           Inl e \<Rightarrow> (Inl e, c, ev)
         | Inr t \<Rightarrow> (Inr (), c\<lparr>c_token := Some t\<rparr>, ev))"

text \<open>\<^verbatim>\<open>await client.get_api_token()\<close>: logs in only when no token is set, and
  returns the token.\<close>

definition lib_get_api_token :: "env \<Rightarrow> client \<Rightarrow> string option lib_out" where
  "lib_get_api_token E c =
     (if c_token c = None then
        (case lib_login E c of
           (Inl e, c', evs) \<Rightarrow> (Inl e, c', evs)
         | (Inr _, c', evs) \<Rightarrow> (Inr (c_token c'), c', evs))
      else (Inr (c_token c), c, []))"

definition lib_all_mosques_neighborhood :: "env \<Rightarrow> client \<Rightarrow> json list lib_out" where
  "lib_all_mosques_neighborhood E c = (neighborhood_result E c, c, [CallNeighborhood])"

definition lib_fetch_mosques_by_keyword :: "env \<Rightarrow> string \<Rightarrow> client \<Rightarrow> json list lib_out" where
  "lib_fetch_mosques_by_keyword E k c = (keyword_result E k c, c, [CallKeyword k])"

definition lib_fetch_prayer_times :: "env \<Rightarrow> client \<Rightarrow> json lib_out" where
  "lib_fetch_prayer_times E c =
     (case prayer_result E c of (r, m) \<Rightarrow> (r, c\<lparr>c_mosque := m\<rparr>, [CallPrayerTimes]))"

text \<open>\<^verbatim>\<open>await client.close()\<close> (assumed not to raise).\<close>

definition lib_close :: "client \<Rightarrow> trace" where
  "lib_close c = [Close]"

section \<open>Concrete worlds\<close>

text \<open>A world whose answers do not depend on the request: the inputs of the
  witnesses.\<close>

definition stub_env ::
  "exn + string \<Rightarrow> exn + json list \<Rightarrow> (exn + json) \<times> string option \<Rightarrow> exn + response \<Rightarrow> env" where
  "stub_env l n p h =
     \<lparr>login_result = (\<lambda>_ _. l), neighborhood_result = (\<lambda>_. n), keyword_result = (\<lambda>_ _. n),
      prayer_result = (\<lambda>_. p), http_result = (\<lambda>_ _ _. h)\<rparr>"

section \<open>Equations of the library methods\<close>

lemma new_client_sel [simp]:
  "c_latitude (new_client lat lon m u p t) = lat"
  "c_longitude (new_client lat lon m u p t) = lon"
  "c_mosque (new_client lat lon m u p t) = m"
  "c_username (new_client lat lon m u p t) = u"
  "c_password (new_client lat lon m u p t) = p"
  "c_token (new_client lat lon m u p t) = t"
  by (simp_all add: new_client_def)

lemma stub_env_sel [simp]:
  "login_result (stub_env l n pr h) u p = l"
  "neighborhood_result (stub_env l n pr h) c = n"
  "keyword_result (stub_env l n pr h) k c = n"
  "prayer_result (stub_env l n pr h) c = pr"
  "http_result (stub_env l n pr h) url hs t = h"
  by (simp_all add: stub_env_def)

lemma lib_login_Inl [lib_simps]:
  "login_result E (c_username c) (c_password c) = Inl e \<Longrightarrow>
   lib_login E c = (Inl e, c, [Login (c_username c) (c_password c)])"
  by (simp add: lib_login_def)

lemma lib_login_Inr [lib_simps]:
  "login_result E (c_username c) (c_password c) = Inr t \<Longrightarrow>
   lib_login E c = (Inr (), c\<lparr>c_token := Some t\<rparr>, [Login (c_username c) (c_password c)])"
  by (simp add: lib_login_def)

text \<open>Without a token, \<^verbatim>\<open>get_api_token\<close> is exactly one login.\<close>

lemma lib_get_api_token_no_token [lib_simps]:
  "c_token c = None \<Longrightarrow>
   lib_get_api_token E c =
     (case login_result E (c_username c) (c_password c) of
        Inl e \<Rightarrow> (Inl e, c, [Login (c_username c) (c_password c)])
      | Inr t \<Rightarrow> (Inr (Some t), c\<lparr>c_token := Some t\<rparr>, [Login (c_username c) (c_password c)]))"
  by (simp add: lib_get_api_token_def lib_login_def split: sum.split)

lemma lib_get_api_token_token [lib_simps]:
  "c_token c = Some t \<Longrightarrow> lib_get_api_token E c = (Inr (Some t), c, [])"
  by (simp add: lib_get_api_token_def)

lemmas lib_defs [lib_simps] =
  lib_all_mosques_neighborhood_def lib_fetch_mosques_by_keyword_def lib_close_def

lemma lib_fetch_prayer_times_eq [lib_simps]:
  "lib_fetch_prayer_times E c =
     (fst (prayer_result E c), c\<lparr>c_mosque := snd (prayer_result E c)\<rparr>, [CallPrayerTimes])"
  by (simp add: lib_fetch_prayer_times_def split: prod.split)

end
