(* ===== verification/Factory.thy ===== *)
theory Factory
  imports Client
begin

text \<open>
  The Session Factory, \<^verbatim>\<open>_create_authenticated_client\<close>
  (\<^verbatim>\<open>mawaqit_wrapper.py\<close>, lines 18--56). With a username and a password (both
  truthy) it builds a client \<^emph>\<open>without\<close> the caller's token and calls
  \<^verbatim>\<open>get_api_token()\<close>, which therefore logs in afresh; if that raises an
  \<^verbatim>\<open>Exception\<close> it closes the client and re-raises. Otherwise it builds the client
  with the token as given and makes no request. The lemmas give the result and the
  trace on every branch.
\<close>

definition create_authenticated_client ::
  "env \<Rightarrow> coord option \<Rightarrow> coord option \<Rightarrow> string option \<Rightarrow> string option \<Rightarrow>
   string option \<Rightarrow> string option \<Rightarrow> (exn + client) \<times> trace" where
  "create_authenticated_client E lat lon m u p t =
     (if py_truthy u \<and> py_truthy p then
        let c = new_client lat lon m u p None;
            pre = [Log Debug ''Creating client with credentials, will perform fresh login'' [],
                   Construct c]
        in (case lib_get_api_token E c of
              (Inr _, c', evs) \<Rightarrow>
                (Inr c', pre @ evs @ [Log Debug ''Fresh login succeeded, token obtained'' []])
            | (Inl e, c', evs) \<Rightarrow>
                if is_exception e then (Inl e, pre @ evs @ lib_close c') else (Inl e, pre @ evs))
      else
        let c = new_client lat lon m None None t
        in (Inr c, [Log Debug ''Creating client with existing token only (no credentials)'' [],
                    Construct c]))"

section \<open>The two branches\<close>

lemma create_credentials [op_simps]:
  assumes "py_truthy u" and "py_truthy p"
  shows "create_authenticated_client E lat lon m u p t =
    (case login_result E u p of
       Inr tok \<Rightarrow>
         (Inr (new_client lat lon m u p (Some tok)),
          [Log Debug ''Creating client with credentials, will perform fresh login'' [],
           Construct (new_client lat lon m u p None), Login u p,
           Log Debug ''Fresh login succeeded, token obtained'' []])
     | Inl e \<Rightarrow>
         (Inl e,
          [Log Debug ''Creating client with credentials, will perform fresh login'' [],
           Construct (new_client lat lon m u p None), Login u p] @
          (if is_exception e then [Close] else [])))"
proof -
  have tok: "new_client lat lon m u p None\<lparr>c_token := Some tok\<rparr> = new_client lat lon m u p (Some tok)"
    for tok by (simp add: new_client_def)
  show ?thesis
    using assms
    by (simp add: create_authenticated_client_def lib_get_api_token_no_token lib_close_def tok
        split: sum.split)
qed

lemma create_token_only [op_simps]:
  assumes "\<not> (py_truthy u \<and> py_truthy p)"
  shows "create_authenticated_client E lat lon m u p t =
    (Inr (new_client lat lon m None None t),
     [Log Debug ''Creating client with existing token only (no credentials)'' [],
      Construct (new_client lat lon m None None t)])"
  unfolding create_authenticated_client_def if_not_P [OF assms] Let_def ..

text \<open>On every branch the trace starts with one debug line and one construction.\<close>

lemma create_trace_shape:
  "\<exists>c rest. snd (create_authenticated_client E lat lon m u p t) =
      Log Debug (if py_truthy u \<and> py_truthy p
                 then ''Creating client with credentials, will perform fresh login''
                 else ''Creating client with existing token only (no credentials)'') [] #
      Construct c # rest
    \<and> Construct c \<notin> set rest"
  by (cases "py_truthy u \<and> py_truthy p")
     (auto simp: create_credentials create_token_only split: sum.split)

text \<open>A \<^verbatim>\<open>CancelledError\<close> leaves the factory only from the login.\<close>

lemma create_cancelled_iff:
  "fst (create_authenticated_client E lat lon m u p t) = Inl CancelledError \<longleftrightarrow>
   py_truthy u \<and> py_truthy p \<and> login_result E u p = Inl CancelledError"
  by (cases "py_truthy u \<and> py_truthy p") (auto simp: create_credentials create_token_only split: sum.split)

section \<open>Properties of the Session Factory\<close>

text \<open>
  C3. Fresh-login invariant: when a username and a password are present the
  factory constructs the client without any token (even when the caller passed
  one) and the very next event is a login with exactly those credentials.
\<close>

theorem factory_fresh_login:
  assumes "py_truthy u" and "py_truthy p"
  shows "\<exists>rest. snd (create_authenticated_client E lat lon m u p t) =
    [Log Debug ''Creating client with credentials, will perform fresh login'' [],
     Construct (new_client lat lon m u p None), Login u p] @ rest"
  using assms by (simp add: create_credentials split: sum.split)

theorem factory_fresh_login_witness:
  "py_truthy (Some ''user'') \<and> py_truthy (Some ''pw'') \<and>
   take 3 (snd (create_authenticated_client (stub_env (Inr ''fresh'') (Inr []) (Inr JNull, None) (Inl ClientError))
       None None (Some ''m1'') (Some ''user'') (Some ''pw'') (Some ''stale''))) =
    [Log Debug ''Creating client with credentials, will perform fresh login'' [],
     Construct (new_client None None (Some ''m1'') (Some ''user'') (Some ''pw'') None),
     Login (Some ''user'') (Some ''pw'')]"
proof -
  obtain rest where "snd (create_authenticated_client (stub_env (Inr ''fresh'') (Inr []) (Inr JNull, None) (Inl ClientError))
       None None (Some ''m1'') (Some ''user'') (Some ''pw'') (Some ''stale'')) =
    [Log Debug ''Creating client with credentials, will perform fresh login'' [],
     Construct (new_client None None (Some ''m1'') (Some ''user'') (Some ''pw'') None),
     Login (Some ''user'') (Some ''pw'')] @ rest"
    using factory_fresh_login [where u = "Some ''user''" and p = "Some ''pw''" and
      E = "stub_env (Inr ''fresh'') (Inr []) (Inr JNull, None) (Inl ClientError)" and lat = None and lon = None and m = "Some ''m1''" and t = "Some ''stale''"]
    by auto
  then show ?thesis by simp
qed

text \<open>
  C4. Token-only construction: without a (truthy) username and password the
  factory returns a client carrying the caller's token, and no username or
  password, and makes no login request.
\<close>

theorem factory_token_only_no_login:
  assumes "\<not> (py_truthy u \<and> py_truthy p)"
  shows "fst (create_authenticated_client E lat lon m u p t) = Inr (new_client lat lon m None None t)
    \<and> (\<forall>u' p'. Login u' p' \<notin> set (snd (create_authenticated_client E lat lon m u p t)))"
  using assms by (simp add: create_token_only)

theorem factory_token_only_no_login_witness:
  "\<not> (py_truthy (Some ''user'') \<and> py_truthy (Some ''''))
   \<and> fst (create_authenticated_client (stub_env (Inr ''fresh'') (Inr []) (Inr JNull, None) (Inl ClientError))
        None None None (Some ''user'') (Some '''') (Some ''tok''))
      = Inr (new_client None None None None None (Some ''tok''))
   \<and> (\<forall>u' p'. Login u' p' \<notin> set (snd (create_authenticated_client
        (stub_env (Inr ''fresh'') (Inr []) (Inr JNull, None) (Inl ClientError))
        None None None (Some ''user'') (Some '''') (Some ''tok''))))"
  using factory_token_only_no_login [where u = "Some ''user''" and p = "Some ''''" and
      E = "stub_env (Inr ''fresh'') (Inr []) (Inr JNull, None) (Inl ClientError)" and
      lat = None and lon = None and m = None and t = "Some ''tok''"]
  by simp

text \<open>
  C11. When the fresh login raises an \<^verbatim>\<open>Exception\<close>, the partly built client is
  closed before the exception propagates: the trace ends with exactly one close.
\<close>

theorem factory_failure_closes:
  assumes "py_truthy u" and "py_truthy p" and "login_result E u p = Inl e" and "is_exception e"
  shows "create_authenticated_client E lat lon m u p t =
    (Inl e, [Log Debug ''Creating client with credentials, will perform fresh login'' [],
             Construct (new_client lat lon m u p None), Login u p, Close])"
  using assms by (simp add: create_credentials)

theorem factory_failure_closes_witness:
  "py_truthy (Some ''user'') \<and> py_truthy (Some ''pw'') \<and>
   login_result (stub_env (Inl BadCredentialsException) (Inr []) (Inr JNull, None) (Inl ClientError))
     (Some ''user'') (Some ''pw'') = Inl BadCredentialsException \<and>
   is_exception BadCredentialsException \<and>
   create_authenticated_client (stub_env (Inl BadCredentialsException) (Inr []) (Inr JNull, None) (Inl ClientError))
     None None None (Some ''user'') (Some ''pw'') None =
    (Inl BadCredentialsException,
     [Log Debug ''Creating client with credentials, will perform fresh login'' [],
      Construct (new_client None None None (Some ''user'') (Some ''pw'') None),
      Login (Some ''user'') (Some ''pw''), Close])"
  using factory_failure_closes [where u = "Some ''user''" and p = "Some ''pw''" and
      e = BadCredentialsException and
      E = "stub_env (Inl BadCredentialsException) (Inr []) (Inr JNull, None) (Inl ClientError)" and
      lat = None and lon = None and m = None and t = None]
  by simp

text \<open>
  C25. The \<^verbatim>\<open>except Exception\<close> around the fresh login does not catch
  \<^verbatim>\<open>asyncio.CancelledError\<close>: a login cancelled mid-flight propagates the
  cancellation with the constructed client never closed, and no caller can close
  it because the factory never returned it.
\<close>

theorem factory_cancelled_login_leaks_client:
  assumes "py_truthy u" and "py_truthy p" and "login_result E u p = Inl CancelledError"
  shows "fst (create_authenticated_client E lat lon m u p t) = Inl CancelledError
    \<and> Construct (new_client lat lon m u p None) \<in> set (snd (create_authenticated_client E lat lon m u p t))
    \<and> Close \<notin> set (snd (create_authenticated_client E lat lon m u p t))"
  using assms by (simp add: create_credentials)

theorem factory_cancelled_login_leaks_client_witness:
  "py_truthy (Some ''user'') \<and> py_truthy (Some ''pw'') \<and>
   login_result (stub_env (Inl CancelledError) (Inr []) (Inr JNull, None) (Inl ClientError))
     (Some ''user'') (Some ''pw'') = Inl CancelledError \<and>
   fst (create_authenticated_client (stub_env (Inl CancelledError) (Inr []) (Inr JNull, None) (Inl ClientError))
     None None None (Some ''user'') (Some ''pw'') None) = Inl CancelledError \<and>
   Close \<notin> set (snd (create_authenticated_client (stub_env (Inl CancelledError) (Inr []) (Inr JNull, None) (Inl ClientError))
     None None None (Some ''user'') (Some ''pw'') None))"
  using factory_cancelled_login_leaks_client [where u = "Some ''user''" and p = "Some ''pw''" and
      E = "stub_env (Inl CancelledError) (Inr []) (Inr JNull, None) (Inl ClientError)" and
      lat = None and lon = None and m = None and t = None]
  by simp

end
