(* ===== verification/Session.thy ===== *)
theory Session
  imports Client
begin

text \<open>
  The Session Handle contract of the spec (sections 3 and 4.2): a client object is
  created once per operation, used only while it is open, and closed exactly once
  on every exit path. The contract is a deterministic automaton over the trace:
  \<open>session_step\<close> reads one event, \<open>session_run\<close> a whole trace. An operation
  keeps the contract when its trace takes the automaton from \<open>NoSession\<close> to
  \<open>Released\<close>; the lemmas below turn that into the bracketed shape "construct,
  client calls, close" and into exact counts.
\<close>

datatype session = NoSession | Live | Released | Misused

text \<open>Events that do not touch the client object: log lines, and the direct
  HTTP request, which runs on its own aiohttp session.\<close>

fun is_passive :: "event \<Rightarrow> bool" where
  "is_passive (Log _ _ _) = True"
| "is_passive (HttpGet _ _ _) = True"
| "is_passive _ = False"

text \<open>Requests made through the client object.\<close>

fun is_client_call :: "event \<Rightarrow> bool" where
  "is_client_call (Login _ _) = True"
| "is_client_call CallNeighborhood = True"
| "is_client_call (CallKeyword _) = True"
| "is_client_call CallPrayerTimes = True"
| "is_client_call _ = False"

fun session_step :: "session \<Rightarrow> event \<Rightarrow> session" where
  "session_step NoSession (Construct _) = Live"
| "session_step Live Close = Released"
| "session_step s e =
     (if is_passive e then s else if s = Live \<and> is_client_call e then Live else Misused)"

definition session_run :: "session \<Rightarrow> trace \<Rightarrow> session" where
  "session_run s evs = foldl session_step s evs"

text \<open>The contract as a shape: the client is constructed once, closed once, and
  every client request lies between the two.\<close>

definition bracketed :: "trace \<Rightarrow> bool" where
  "bracketed evs \<longleftrightarrow>
     (\<exists>xs c ys zs. evs = xs @ Construct c # ys @ Close # zs
        \<and> (\<forall>e \<in> set xs. is_passive e) \<and> (\<forall>e \<in> set ys. is_passive e \<or> is_client_call e)
        \<and> (\<forall>e \<in> set zs. is_passive e))"

text \<open>The contract at every intermediate state: each client request is made
  while the automaton, after the events before it, is \<open>Live\<close>.\<close>

fun live_calls :: "session \<Rightarrow> trace \<Rightarrow> bool" where
  "live_calls s [] = True"
| "live_calls s (e # evs) = ((is_client_call e \<longrightarrow> s = Live) \<and> live_calls (session_step s e) evs)"

section \<open>Running the automaton\<close>

lemma session_run_simps [simp]:
  "session_run s [] = s"
  "session_run s (e # evs) = session_run (session_step s e) evs"
  "session_run s (xs @ ys) = session_run (session_run s xs) ys"
  by (simp_all add: session_run_def)

lemma session_step_passive [simp]: "is_passive e \<Longrightarrow> session_step s e = s"
  by (cases e; cases s) simp_all

lemma session_run_Misused [simp]: "session_run Misused evs = Misused"
proof (induction evs)
  case (Cons e evs)
  then show ?case by (cases e) simp_all
qed simp

lemma session_run_passive:
  "\<forall>e \<in> set evs. is_passive e \<Longrightarrow> session_run s evs = s"
proof (induction evs arbitrary: s)
  case (Cons e evs)
  then show ?case by (cases e; cases s) simp_all
qed simp

lemma session_run_live_calls:
  "\<forall>e \<in> set evs. is_passive e \<or> is_client_call e \<Longrightarrow> session_run Live evs = Live"
proof (induction evs)
  case (Cons e evs)
  then show ?case by (cases e) auto
qed simp

text \<open>The bracketed shape: a run that ends \<open>Released\<close> from \<open>Released\<close> saw only
  passive events; from \<open>Live\<close>, client calls and passive events up to one close;
  from \<open>NoSession\<close>, passive events up to one construction first.\<close>

lemma released_from_released:
  "session_run Released evs = Released \<Longrightarrow> \<forall>e \<in> set evs. is_passive e"
proof (induction evs)
  case (Cons e evs)
  then show ?case by (cases e) (auto split: if_splits)
qed simp

lemma released_from_live:
  "session_run Live evs = Released \<Longrightarrow>
   \<exists>ys zs. evs = ys @ Close # zs \<and> (\<forall>e \<in> set ys. is_passive e \<or> is_client_call e)
     \<and> (\<forall>e \<in> set zs. is_passive e)"
proof (induction evs)
  case Nil
  then show ?case by simp
next
  case (Cons e evs)
  show ?case
  proof (cases "e = Close")
    case True
    with Cons.prems have "session_run Released evs = Released" by simp
    then have "\<forall>e \<in> set evs. is_passive e" by (rule released_from_released)
    with True show ?thesis by (intro exI [of _ "[]"] exI [of _ evs]) simp
  next
    case False
    with Cons.prems have step: "session_step Live e = Live" and "is_passive e \<or> is_client_call e"
      by (cases e; auto split: if_splits)+
    with Cons.prems Cons.IH obtain ys zs where "evs = ys @ Close # zs"
      and "\<forall>e \<in> set ys. is_passive e \<or> is_client_call e" and "\<forall>e \<in> set zs. is_passive e"
      by auto
    with \<open>is_passive e \<or> is_client_call e\<close> show ?thesis
      by (intro exI [of _ "e # ys"] exI [of _ zs]) auto
  qed
qed

lemma released_from_none:
  "session_run NoSession evs = Released \<Longrightarrow>
   \<exists>xs c rest. evs = xs @ Construct c # rest \<and> (\<forall>e \<in> set xs. is_passive e)
     \<and> session_run Live rest = Released"
proof (induction evs)
  case Nil
  then show ?case by simp
next
  case (Cons e evs)
  show ?case
  proof (cases "\<exists>c. e = Construct c")
    case True
    with Cons.prems show ?thesis by (auto intro!: exI [of _ "[]"])
  next
    case False
    with Cons.prems have "is_passive e" and "session_step NoSession e = NoSession"
      by (cases e; auto split: if_splits)+
    with Cons.prems Cons.IH obtain xs c rest where "evs = xs @ Construct c # rest"
      and "\<forall>e \<in> set xs. is_passive e" and "session_run Live rest = Released"
      by auto
    with \<open>is_passive e\<close> show ?thesis
      by (intro exI [of _ "e # xs"] exI [of _ c] exI [of _ rest]) auto
  qed
qed

lemma released_bracketed: "session_run NoSession evs = Released \<Longrightarrow> bracketed evs"
  unfolding bracketed_def
  by (blast dest: released_from_none released_from_live)

lemma bracketed_released: "bracketed evs \<Longrightarrow> session_run NoSession evs = Released"
  unfolding bracketed_def
  by (auto simp: session_run_passive session_run_live_calls)

lemma passive_not_close [simp]: "is_passive e \<Longrightarrow> e \<noteq> Close"
  by auto

lemma count_close_passive: "\<forall>e \<in> set xs. is_passive e \<or> is_client_call e \<Longrightarrow> count_list xs Close = 0"
  by (induction xs) auto

lemma bracketed_close_once: "bracketed evs \<Longrightarrow> count_list evs Close = 1"
  unfolding bracketed_def
  by (auto simp: count_close_passive)

lemma released_close_once: "session_run NoSession evs = Released \<Longrightarrow> count_list evs Close = 1"
  by (rule bracketed_close_once [OF released_bracketed])

text \<open>A run that never reaches \<open>Misused\<close> made every client request on a live
  client.\<close>

lemma not_misused_live_calls: "session_run s evs \<noteq> Misused \<Longrightarrow> live_calls s evs"
proof (induction evs arbitrary: s)
  case (Cons e evs)
  then show ?case by (cases e; cases s) auto
qed simp

end
