(* ===== verification/Wrappers.thy ===== *)
theory Wrappers
  imports Factory Session
begin

text \<open>
  The Operation Wrappers (\<^verbatim>\<open>mawaqit_wrapper.py\<close>, lines 59--146):
  \<^verbatim>\<open>test_credentials\<close>, \<^verbatim>\<open>get_mawaqit_api_token\<close>, \<^verbatim>\<open>all_mosques_neighborhood\<close>
  and \<^verbatim>\<open>all_mosques_by_keyword\<close>. Each is the same skeleton: \<^verbatim>\<open>client = None\<close>,
  a \<^verbatim>\<open>try\<close> body that creates the client and makes one request, two
  \<^verbatim>\<open>except\<close> clauses that log an authentication or a network error and keep the
  result's initial value, and a \<^verbatim>\<open>finally\<close> that closes the client if one was
  assigned. \<open>finish_op\<close> is that skeleton after the body: it takes what the body
  produced (its outcome, the value of \<^verbatim>\<open>client\<close>, its events). The lemmas give
  each operation's result on every branch and how the skeleton keeps the session
  contract of \<^theory_text>\<open>Session\<close>.
\<close>

text \<open>\<^verbatim>\<open>finally: if client is not None: await client.close()\<close>\<close>

definition close_if_set :: "client option \<Rightarrow> trace" where
  "close_if_set cl = (case cl of None \<Rightarrow> [] | Some c \<Rightarrow> lib_close c)"

text \<open>
  The \<^verbatim>\<open>except\<close>/\<^verbatim>\<open>finally\<close> skeleton. \<open>auth_log\<close> is the operation's own
  error line for the authentication clause, \<open>initial\<close> the initial value of its
  result variable. An exception of neither class propagates, after the
  \<^verbatim>\<open>finally\<close>.
\<close>

definition finish_op :: "(exn \<Rightarrow> event) \<Rightarrow> 'a \<Rightarrow> (exn + 'a) \<times> client option \<times> trace \<Rightarrow> (exn + 'a) \<times> trace" where
  "finish_op auth_log initial = (\<lambda>(r, cl, evs).
     let (r', logged) =
       (case r of
          Inr v \<Rightarrow> (Inr v, [])
        | Inl e \<Rightarrow>
            if is_auth_exn e then (Inr initial, [auth_log e])
            else if is_network_exn e then (Inr initial, [Log Error ''Network-related error: %s'' [AExn e]])
            else (Inl e, []))
     in (r', evs @ logged @ close_if_set cl))"

text \<open>\<^verbatim>\<open>test_credentials(username, password)\<close>: a fresh client and one login.\<close>

definition test_credentials :: "env \<Rightarrow> string option \<Rightarrow> string option \<Rightarrow> (exn + bool) \<times> trace" where
  "test_credentials E username password =
     (let cl = new_client None None None username password None
      in case lib_login E cl of
           (r, cl', evs) \<Rightarrow>
             finish_op (\<lambda>_. Log Error ''Error : Bad Credentials'' []) False
               (case r of Inl e \<Rightarrow> Inl e | Inr _ \<Rightarrow> Inr True, Some cl', Construct cl # evs))"

text \<open>\<^verbatim>\<open>get_mawaqit_api_token(username, password)\<close>\<close>

definition get_mawaqit_api_token ::
  "env \<Rightarrow> string option \<Rightarrow> string option \<Rightarrow> (exn + string option) \<times> trace" where
  "get_mawaqit_api_token E username password =
     (let cl = new_client None None None username password None
      in case lib_get_api_token E cl of
           (r, cl', evs) \<Rightarrow>
             finish_op (\<lambda>e. Log Error ''Error on retrieving API Token: %s'' [AExn e]) None
               (r, Some cl', Construct cl # evs))"

text \<open>\<^verbatim>\<open>all_mosques_neighborhood(latitude, longitude, mosque, username, password, token)\<close>\<close>

definition all_mosques_neighborhood ::
  "env \<Rightarrow> coord option \<Rightarrow> coord option \<Rightarrow> string option \<Rightarrow> string option \<Rightarrow> string option \<Rightarrow>
   string option \<Rightarrow> (exn + json list) \<times> trace" where
  "all_mosques_neighborhood E latitude longitude mosque username password token =
     finish_op (\<lambda>e. Log Error ''Error on retrieving mosques: %s'' [AExn e]) []
       (case create_authenticated_client E latitude longitude mosque username password token of
          (Inl e, evs) \<Rightarrow> (Inl e, None, evs)
        | (Inr cl, evs) \<Rightarrow>
            (case lib_all_mosques_neighborhood E cl of
               (r, cl', evs') \<Rightarrow> (r, Some cl', evs @ evs')))"

text \<open>\<^verbatim>\<open>all_mosques_by_keyword(search_keyword, username, password, token)\<close>: the
  keyword request is skipped when the keyword is \<^verbatim>\<open>None\<close>, after the client is
  created.\<close>

definition all_mosques_by_keyword ::
  "env \<Rightarrow> string option \<Rightarrow> string option \<Rightarrow> string option \<Rightarrow> string option \<Rightarrow>
   (exn + json list) \<times> trace" where
  "all_mosques_by_keyword E search_keyword username password token =
     finish_op (\<lambda>e. Log Error ''Error on retrieving mosques: %s'' [AExn e]) []
       (case create_authenticated_client E None None None username password token of
          (Inl e, evs) \<Rightarrow> (Inl e, None, evs)
        | (Inr cl, evs) \<Rightarrow>
            (case search_keyword of
               None \<Rightarrow> (Inr [], Some cl, evs)
             | Some k \<Rightarrow>
                 (case lib_fetch_mosques_by_keyword E k cl of
                    (r, cl', evs') \<Rightarrow> (r, Some cl', evs @ evs'))))"

text \<open>The caller-facing contract of spec section 6: no exception of the two
  recognised classes leaves an operation.\<close>

definition normalised :: "exn + 'a \<Rightarrow> bool" where
  "normalised r = (case r of Inl e \<Rightarrow> \<not> is_auth_exn e \<and> \<not> is_network_exn e | Inr _ \<Rightarrow> True)"

text \<open>The body shared by the three operations that use the factory: create the
  client, then make one request on it.\<close>

abbreviation factory_call ::
  "env \<Rightarrow> coord option \<Rightarrow> coord option \<Rightarrow> string option \<Rightarrow> string option \<Rightarrow> string option \<Rightarrow>
   string option \<Rightarrow> (client \<Rightarrow> 'a lib_out) \<Rightarrow> (exn + 'a) \<times> client option \<times> trace" where
  "factory_call E lat lon m u p t call \<equiv>
     (case create_authenticated_client E lat lon m u p t of
        (Inl e, evs) \<Rightarrow> (Inl e, None, evs)
      | (Inr cl, evs) \<Rightarrow> (case call cl of (r, cl', evs') \<Rightarrow> (r, Some cl', evs @ evs')))"

section \<open>The skeleton\<close>

lemma finish_op_simps [op_simps]:
  "finish_op L d (Inr v, cl, evs) = (Inr v, evs @ close_if_set cl)"
  "is_auth_exn e \<Longrightarrow> finish_op L d (Inl e, cl, evs) = (Inr d, evs @ L e # close_if_set cl)"
  "is_network_exn e \<Longrightarrow> finish_op L d (Inl e, cl, evs) =
     (Inr d, evs @ Log Error ''Network-related error: %s'' [AExn e] # close_if_set cl)"
  "\<not> is_auth_exn e \<Longrightarrow> \<not> is_network_exn e \<Longrightarrow> finish_op L d (Inl e, cl, evs) = (Inl e, evs @ close_if_set cl)"
  by (auto simp: finish_op_def dest: auth_not_network)

lemma close_if_set_simps [simp, op_simps]:
  "close_if_set None = []"
  "close_if_set (Some c) = [Close]"
  by (simp_all add: close_if_set_def lib_close_def)

lemma finish_op_normalised: "normalised (fst (finish_op L d x))"
  by (cases x) (auto simp: finish_op_def normalised_def split: sum.split)

text \<open>The skeleton adds only its error lines and the close: events of any other
  kind are those of the body.\<close>

lemma finish_op_filter:
  assumes "\<forall>e. \<not> P (L e)" and "\<forall>e. \<not> P (Log Error ''Network-related error: %s'' [AExn e])" and "\<not> P Close"
  shows "filter P (snd (finish_op L d (r, cl, evs))) = filter P evs"
  using assms by (cases r) (auto simp: finish_op_def close_if_set_def lib_close_def split: sum.split option.split)

text \<open>The skeleton adds at most one error line before the close, and the error
  line is whatever \<open>L\<close> gives; if \<open>L\<close> gives log lines only, the close is the
  skeleton's only effect on the session.\<close>

lemma finish_op_session:
  assumes "\<forall>e. is_passive (L e)"
  shows "session_run s (snd (finish_op L d (r, cl, evs))) =
    session_run (session_run s evs) (close_if_set cl)"
  using assms by (cases r) (auto simp: finish_op_def split: sum.split)

section \<open>The factory seen from the session contract\<close>

lemma create_session:
  "session_run NoSession (snd (create_authenticated_client E lat lon m u p t)) =
     (case fst (create_authenticated_client E lat lon m u p t) of
        Inr _ \<Rightarrow> Live
      | Inl e \<Rightarrow> if is_exception e then Released else Live)"
  by (cases "py_truthy u \<and> py_truthy p")
     (auto simp: create_credentials create_token_only split: sum.split)

text \<open>The factory's only client request is the login, made exactly when the
  credentials are truthy.\<close>

lemma create_client_calls:
  "filter is_client_call (snd (create_authenticated_client E lat lon m u p t)) =
     (if py_truthy u \<and> py_truthy p then [Login u p] else [])"
  by (cases "py_truthy u \<and> py_truthy p")
     (auto simp: create_credentials create_token_only split: sum.split)

section \<open>Each operation keeps the session contract\<close>

lemma test_credentials_session:
  "session_run NoSession (snd (test_credentials E u p)) = Released"
  by (simp add: test_credentials_def lib_login_def finish_op_session Let_def split: sum.split)

lemma get_mawaqit_api_token_session:
  "session_run NoSession (snd (get_mawaqit_api_token E u p)) = Released"
  by (simp add: get_mawaqit_api_token_def lib_get_api_token_no_token finish_op_session Let_def
      split: sum.split)

text \<open>After the factory, one client request: the session ends released, and
  left live exactly when a cancellation escaped the factory's login.\<close>

lemma factory_call_session:
  assumes req: "\<And>c. \<forall>ev \<in> set (snd (snd (call c))). is_client_call ev"
    and L: "\<forall>e. is_passive (L e)"
  shows "session_run NoSession (snd (finish_op L d (factory_call E lat lon m u p t call))) =
    (if fst (create_authenticated_client E lat lon m u p t) = Inl CancelledError then Live else Released)"
proof (cases "create_authenticated_client E lat lon m u p t")
  case (Pair r evs)
  note sess = create_session [of E lat lon m u p t, unfolded Pair, simplified]
  show ?thesis
  proof (cases r)
    case (Inl e)
    with sess Pair L show ?thesis by (simp add: finish_op_session is_exception_iff)
  next
    case (Inr c)
    obtain r' c' evs' where call: "call c = (r', c', evs')" by (cases "call c") auto
    from req [of c] call have "session_run Live evs' = Live"
      by (simp add: session_run_live_calls)
    with sess Inr Pair call L show ?thesis by (simp add: finish_op_session)
  qed
qed

lemma factory_call_cancelled:
  "fst (create_authenticated_client E lat lon m u p t) = Inl CancelledError \<Longrightarrow>
   fst (finish_op L d (factory_call E lat lon m u p t call)) = Inl CancelledError"
  by (cases "create_authenticated_client E lat lon m u p t") (simp add: finish_op_simps)

lemma factory_then_request_session:
  assumes req: "\<And>c. \<forall>ev \<in> set (snd (snd (call c))). is_client_call ev"
    and L: "\<forall>e. is_passive (L e)"
    and ok: "fst (finish_op L d (factory_call E lat lon m u p t call)) \<noteq> Inl CancelledError"
  shows "session_run NoSession (snd (finish_op L d (factory_call E lat lon m u p t call))) = Released"
  using factory_call_session [OF req L, where d = d and E = E and lat = lat and lon = lon and m = m
      and u = u and p = p and t = t] factory_call_cancelled [where L = L and d = d and call = call] ok
  by (auto split: if_splits)

lemma all_mosques_by_keyword_factory_call:
  "all_mosques_by_keyword E k u p t =
     finish_op (\<lambda>e. Log Error ''Error on retrieving mosques: %s'' [AExn e]) []
       (factory_call E None None None u p t
          (\<lambda>cl. case k of None \<Rightarrow> (Inr [], cl, []) | Some kw \<Rightarrow> lib_fetch_mosques_by_keyword E kw cl))"
  by (cases k) (simp_all add: all_mosques_by_keyword_def split: prod.split sum.split)

lemma keyword_call_client_calls:
  "\<forall>ev \<in> set (snd (snd (case k of None \<Rightarrow> (Inr [], cl, []) | Some kw \<Rightarrow> lib_fetch_mosques_by_keyword E kw cl))).
     is_client_call ev"
  by (cases k) (simp_all add: lib_fetch_mosques_by_keyword_def)

lemma all_mosques_neighborhood_session_cases:
  "session_run NoSession (snd (all_mosques_neighborhood E lat lon m u p t)) =
    (if fst (create_authenticated_client E lat lon m u p t) = Inl CancelledError then Live else Released)"
  unfolding all_mosques_neighborhood_def
  by (rule factory_call_session) (simp_all add: lib_all_mosques_neighborhood_def)

lemma all_mosques_by_keyword_session_cases:
  "session_run NoSession (snd (all_mosques_by_keyword E k u p t)) =
    (if fst (create_authenticated_client E None None None u p t) = Inl CancelledError then Live else Released)"
  unfolding all_mosques_by_keyword_factory_call
  by (rule factory_call_session) (simp_all add: keyword_call_client_calls)

lemma all_mosques_neighborhood_session:
  "fst (all_mosques_neighborhood E lat lon m u p t) \<noteq> Inl CancelledError \<Longrightarrow>
   session_run NoSession (snd (all_mosques_neighborhood E lat lon m u p t)) = Released"
  unfolding all_mosques_neighborhood_def
  by (rule factory_then_request_session) (simp_all add: lib_all_mosques_neighborhood_def)

lemma all_mosques_by_keyword_session:
  "fst (all_mosques_by_keyword E k u p t) \<noteq> Inl CancelledError \<Longrightarrow>
   session_run NoSession (snd (all_mosques_by_keyword E k u p t)) = Released"
  unfolding all_mosques_by_keyword_factory_call
  by (rule factory_then_request_session) (simp_all add: keyword_call_client_calls)

section \<open>Properties of the wrappers\<close>

text \<open>
  C14. \<^verbatim>\<open>test_credentials\<close> answers \<^verbatim>\<open>True\<close> exactly when the login succeeds,
  \<^verbatim>\<open>False\<close> when it fails with an authentication or a network error, and lets
  every other exception through.
\<close>

theorem test_credentials_result:
  "fst (test_credentials E u p) =
     (case login_result E u p of
        Inr _ \<Rightarrow> Inr True
      | Inl e \<Rightarrow> if is_auth_exn e \<or> is_network_exn e then Inr False else Inl e)"
  by (auto simp: test_credentials_def lib_login_def Let_def finish_op_simps split: sum.split)

theorem test_credentials_result_witness:
  "fst (test_credentials (stub_env (Inl ConnectionError) (Inr []) (Inr JNull, None) (Inl ClientError))
      (Some ''user'') (Some ''pw'')) = Inr False"
  using test_credentials_result [where E = "stub_env (Inl ConnectionError) (Inr []) (Inr JNull, None) (Inl ClientError)"
      and u = "Some ''user''" and p = "Some ''pw''"]
  by simp

text \<open>
  C13. For credentials the service rejects, \<^verbatim>\<open>test_credentials\<close> returns
  \<^verbatim>\<open>False\<close>, logs the bad-credentials line, and closes its client exactly once, as
  the last event.
\<close>

theorem test_credentials_rejected:
  assumes "login_result E u p = Inl e" and "is_auth_exn e"
  shows "test_credentials E u p =
    (Inr False, [Construct (new_client None None None u p None), Login u p,
                 Log Error ''Error : Bad Credentials'' [], Close])"
  using assms by (simp add: test_credentials_def lib_login_def finish_op_simps)

theorem test_credentials_rejected_witness:
  "login_result (stub_env (Inl BadCredentialsException) (Inr []) (Inr JNull, None) (Inl ClientError))
     (Some ''user'') (Some ''bad'') = Inl BadCredentialsException
   \<and> is_auth_exn BadCredentialsException
   \<and> test_credentials (stub_env (Inl BadCredentialsException) (Inr []) (Inr JNull, None) (Inl ClientError))
       (Some ''user'') (Some ''bad'') =
     (Inr False, [Construct (new_client None None None (Some ''user'') (Some ''bad'') None),
                  Login (Some ''user'') (Some ''bad''), Log Error ''Error : Bad Credentials'' [], Close])"
  using test_credentials_rejected [where E = "stub_env (Inl BadCredentialsException) (Inr []) (Inr JNull, None)
      (Inl ClientError)" and u = "Some ''user''" and p = "Some ''bad''" and e = BadCredentialsException]
  by simp

text \<open>
  C15. \<^verbatim>\<open>get_mawaqit_api_token\<close> returns the token the login issues, \<^verbatim>\<open>None\<close>
  when the login fails with an authentication or a network error, and lets every
  other exception through.
\<close>

theorem get_mawaqit_api_token_result:
  "fst (get_mawaqit_api_token E u p) =
     (case login_result E u p of
        Inr tok \<Rightarrow> Inr (Some tok)
      | Inl e \<Rightarrow> if is_auth_exn e \<or> is_network_exn e then Inr None else Inl e)"
  by (auto simp: get_mawaqit_api_token_def lib_get_api_token_no_token Let_def finish_op_simps
      split: sum.split)

theorem get_mawaqit_api_token_result_witness:
  "fst (get_mawaqit_api_token (stub_env (Inr ''tok'') (Inr []) (Inr JNull, None) (Inl ClientError))
      (Some ''user'') (Some ''pw'')) = Inr (Some ''tok'')"
  using get_mawaqit_api_token_result [where E = "stub_env (Inr ''tok'') (Inr []) (Inr JNull, None) (Inl ClientError)"
      and u = "Some ''user''" and p = "Some ''pw''"]
  by simp

text \<open>
  C16. End-to-end scenario 4: with no credentials, no token and no mosque, a
  neighbourhood search that the service refuses as unauthenticated returns the
  empty list instead of raising, logs the error, and closes the client.
\<close>

theorem neighborhood_unauthenticated_empty:
  assumes "neighborhood_result E (new_client lat lon None None None None) = Inl e" and "is_auth_exn e"
  shows "all_mosques_neighborhood E lat lon None None None None =
    (Inr [], [Log Debug ''Creating client with existing token only (no credentials)'' [],
              Construct (new_client lat lon None None None None), CallNeighborhood,
              Log Error ''Error on retrieving mosques: %s'' [AExn e], Close])"
  using assms
  by (simp add: all_mosques_neighborhood_def create_token_only lib_all_mosques_neighborhood_def finish_op_simps)

theorem neighborhood_unauthenticated_empty_witness:
  "neighborhood_result (stub_env (Inr ''tok'') (Inl NotAuthenticatedException) (Inr JNull, None) (Inl ClientError))
     (new_client (Some 48) (Some 2) None None None None) = Inl NotAuthenticatedException
   \<and> is_auth_exn NotAuthenticatedException
   \<and> all_mosques_neighborhood (stub_env (Inr ''tok'') (Inl NotAuthenticatedException) (Inr JNull, None) (Inl ClientError))
       (Some 48) (Some 2) None None None None =
     (Inr [], [Log Debug ''Creating client with existing token only (no credentials)'' [],
               Construct (new_client (Some 48) (Some 2) None None None None), CallNeighborhood,
               Log Error ''Error on retrieving mosques: %s'' [AExn NotAuthenticatedException], Close])"
  using neighborhood_unauthenticated_empty [where E = "stub_env (Inr ''tok'') (Inl NotAuthenticatedException)
      (Inr JNull, None) (Inl ClientError)" and lat = "Some 48" and lon = "Some 2" and e = NotAuthenticatedException]
  by simp

text \<open>
  C18. A neighbourhood search whose client is created and whose listing succeeds
  returns exactly the listing the service gave for that client, and closes it.
\<close>

theorem neighborhood_success:
  assumes "create_authenticated_client E lat lon m u p t = (Inr c, evs)"
    and "neighborhood_result E c = Inr ms"
  shows "all_mosques_neighborhood E lat lon m u p t = (Inr ms, evs @ [CallNeighborhood, Close])"
  using assms by (simp add: all_mosques_neighborhood_def lib_all_mosques_neighborhood_def finish_op_simps)

theorem neighborhood_success_witness:
  "create_authenticated_client (stub_env (Inr ''tok'') (Inr [JStr ''m1'']) (Inr JNull, None) (Inl ClientError))
     None None None None None (Some ''tok'') =
     (Inr (new_client None None None None None (Some ''tok'')),
      [Log Debug ''Creating client with existing token only (no credentials)'' [],
       Construct (new_client None None None None None (Some ''tok''))])
   \<and> neighborhood_result (stub_env (Inr ''tok'') (Inr [JStr ''m1'']) (Inr JNull, None) (Inl ClientError))
       (new_client None None None None None (Some ''tok'')) = Inr [JStr ''m1'']
   \<and> all_mosques_neighborhood (stub_env (Inr ''tok'') (Inr [JStr ''m1'']) (Inr JNull, None) (Inl ClientError))
       None None None None None (Some ''tok'') =
     (Inr [JStr ''m1''], [Log Debug ''Creating client with existing token only (no credentials)'' [],
       Construct (new_client None None None None None (Some ''tok'')), CallNeighborhood, Close])"
proof -
  have c: "create_authenticated_client (stub_env (Inr ''tok'') (Inr [JStr ''m1'']) (Inr JNull, None) (Inl ClientError))
     None None None None None (Some ''tok'') =
     (Inr (new_client None None None None None (Some ''tok'')),
      [Log Debug ''Creating client with existing token only (no credentials)'' [],
       Construct (new_client None None None None None (Some ''tok''))])"
    by (simp add: create_token_only)
  show ?thesis
    using c neighborhood_success [OF c, where ms = "[JStr ''m1'']"] by simp
qed

text \<open>
  C17. A keyword search with no keyword and no credentials returns the empty list
  and makes no request: the trace is the token-only construction and the close.
\<close>

theorem keyword_none_no_request:
  assumes "\<not> (py_truthy u \<and> py_truthy p)"
  shows "all_mosques_by_keyword E None u p t =
    (Inr [], [Log Debug ''Creating client with existing token only (no credentials)'' [],
              Construct (new_client None None None None None t), Close])"
  using assms by (simp add: all_mosques_by_keyword_def create_token_only finish_op_simps)

theorem keyword_none_no_request_witness:
  "\<not> (py_truthy None \<and> py_truthy None)
   \<and> all_mosques_by_keyword (stub_env (Inr ''tok'') (Inr []) (Inr JNull, None) (Inl ClientError)) None None None None =
    (Inr [], [Log Debug ''Creating client with existing token only (no credentials)'' [],
              Construct (new_client None None None None None None), Close])"
  using keyword_none_no_request [where E = "stub_env (Inr ''tok'') (Inr []) (Inr JNull, None) (Inl ClientError)"
      and u = None and p = None and t = None]
  by simp

text \<open>
  C26. A keyword search with no keyword still creates the client first: with
  credentials present it performs a network login although no search is made.
\<close>

theorem keyword_none_still_logs_in:
  assumes "py_truthy u" and "py_truthy p"
  shows "Login u p \<in> set (snd (all_mosques_by_keyword E None u p t))
    \<and> (\<forall>k. CallKeyword k \<notin> set (snd (all_mosques_by_keyword E None u p t)))"
  using assms
  by (cases "login_result E u p")
     (auto simp: all_mosques_by_keyword_def create_credentials finish_op_def Let_def split: if_splits)

theorem keyword_none_still_logs_in_witness:
  "py_truthy (Some ''user'') \<and> py_truthy (Some ''pw'')
   \<and> Login (Some ''user'') (Some ''pw'') \<in> set (snd (all_mosques_by_keyword
       (stub_env (Inr ''tok'') (Inr []) (Inr JNull, None) (Inl ClientError)) None (Some ''user'') (Some ''pw'') None))
   \<and> (\<forall>k. CallKeyword k \<notin> set (snd (all_mosques_by_keyword
       (stub_env (Inr ''tok'') (Inr []) (Inr JNull, None) (Inl ClientError)) None (Some ''user'') (Some ''pw'') None)))"
  using keyword_none_still_logs_in [where E = "stub_env (Inr ''tok'') (Inr []) (Inr JNull, None) (Inl ClientError)"
      and u = "Some ''user''" and p = "Some ''pw''" and t = None]
  by simp

text \<open>
  C19. A keyword search with a keyword sends exactly that keyword through the
  created client and returns the service's listing.
\<close>

theorem keyword_search_result:
  assumes "create_authenticated_client E None None None u p t = (Inr c, evs)"
    and "keyword_result E k c = Inr ms"
  shows "all_mosques_by_keyword E (Some k) u p t = (Inr ms, evs @ [CallKeyword k, Close])"
  using assms by (simp add: all_mosques_by_keyword_def lib_fetch_mosques_by_keyword_def finish_op_simps)

theorem keyword_search_result_witness:
  "create_authenticated_client (stub_env (Inr ''tok'') (Inr [JStr ''m1'']) (Inr JNull, None) (Inl ClientError))
     None None None None None (Some ''tok'') =
     (Inr (new_client None None None None None (Some ''tok'')),
      [Log Debug ''Creating client with existing token only (no credentials)'' [],
       Construct (new_client None None None None None (Some ''tok''))])
   \<and> keyword_result (stub_env (Inr ''tok'') (Inr [JStr ''m1'']) (Inr JNull, None) (Inl ClientError))
       ''paris'' (new_client None None None None None (Some ''tok'')) = Inr [JStr ''m1'']
   \<and> all_mosques_by_keyword (stub_env (Inr ''tok'') (Inr [JStr ''m1'']) (Inr JNull, None) (Inl ClientError))
       (Some ''paris'') None None (Some ''tok'') =
     (Inr [JStr ''m1''], [Log Debug ''Creating client with existing token only (no credentials)'' [],
       Construct (new_client None None None None None (Some ''tok'')), CallKeyword ''paris'', Close])"
proof -
  have c: "create_authenticated_client (stub_env (Inr ''tok'') (Inr [JStr ''m1'']) (Inr JNull, None) (Inl ClientError))
     None None None None None (Some ''tok'') =
     (Inr (new_client None None None None None (Some ''tok'')),
      [Log Debug ''Creating client with existing token only (no credentials)'' [],
       Construct (new_client None None None None None (Some ''tok''))])"
    by (simp add: create_token_only)
  show ?thesis
    using c keyword_search_result [OF c, where k = "''paris''" and ms = "[JStr ''m1'']"] by simp
qed

end
