(* ===== verification/Direct.thy ===== *)
theory Direct
  imports Client
begin

text \<open>
  The Direct Fetch Fallback, \<^verbatim>\<open>_fetch_prayer_times_direct\<close>
  (\<^verbatim>\<open>mawaqit_wrapper.py\<close>, lines 149--178): one aiohttp GET of
  \<^verbatim>\<open>MAWAQIT_API_BASE/mosque/<id>/prayer-times\<close> with the token under
  \<^verbatim>\<open>Authorization\<close> and a 30 second total timeout. A status other than 200 and an
  \<^verbatim>\<open>aiohttp.ClientError\<close> are logged and give \<^verbatim>\<open>None\<close>; a 200 gives the decoded
  body; any other exception propagates. The lemmas give each branch and the shape of
  the request (exactly one, no retry). \<open>url_mosque_id\<close> reads the identifier
  back out of a request URL; it is the part of the service's endpoint that
  \<^theory_text>\<open>Service\<close> uses to route the direct request.
\<close>

definition MAWAQIT_API_BASE :: string where
  "MAWAQIT_API_BASE = ''https://mawaqit.net/api/2.0''"

text \<open>\<^verbatim>\<open>f"{MAWAQIT_API_BASE}/mosque/{mosque_id}/prayer-times"\<close>\<close>

definition prayer_times_url :: "string option \<Rightarrow> string" where
  "prayer_times_url mosque_id = MAWAQIT_API_BASE @ ''/mosque/'' @ py_str mosque_id @ ''/prayer-times''"

text \<open>\<^verbatim>\<open>{"Authorization": f"{token}", "Content-Type": "application/json"}\<close>\<close>

definition direct_headers :: "string option \<Rightarrow> (string \<times> string) list" where
  "direct_headers token = [(''Authorization'', py_str token), (''Content-Type'', ''application/json'')]"

text \<open>\<^verbatim>\<open>aiohttp.ClientTimeout(total=30)\<close>, in seconds.\<close>

definition direct_timeout :: nat where
  "direct_timeout = 30"

definition fetch_prayer_times_direct :: "env \<Rightarrow> string option \<Rightarrow> string option \<Rightarrow> (exn + json) \<times> trace" where
  "fetch_prayer_times_direct E mosque_id token =
     (let url = prayer_times_url mosque_id;
          headers = direct_headers token;
          get = [HttpGet url headers direct_timeout];
          failed = (\<lambda>err. (Inr JNull, get @
            [Log Error ''Direct prayer times fetch failed for mosque %s: %s'' [AStr mosque_id, AExn err]]))
      in case http_result E url headers direct_timeout of
           Inl err \<Rightarrow> if is_client_error err then failed err else (Inl err, get)
         | Inr response \<Rightarrow>
             if resp_status response \<noteq> 200 then
               (Inr JNull, get @
                 [Log Error ''Direct prayer times fetch failed: status=%s for mosque %s''
                    [ANat (resp_status response), AStr mosque_id]])
             else (case resp_json response of
                     Inr body \<Rightarrow> (Inr body, get)
                   | Inl err \<Rightarrow> if is_client_error err then failed err else (Inl err, get)))"

text \<open>Reading the mosque identifier back out of a prayer-times URL.\<close>

definition url_mosque_id :: "string \<Rightarrow> string option" where
  "url_mosque_id url = strip_around (MAWAQIT_API_BASE @ ''/mosque/'') ''/prayer-times'' url"

section \<open>The branches\<close>

text \<open>The identifier a request URL carries is the one it was built from.\<close>

lemma url_mosque_id_url: "url_mosque_id (prayer_times_url mid) = Some (py_str mid)"
proof -
  have "prayer_times_url mid = (MAWAQIT_API_BASE @ ''/mosque/'') @ py_str mid @ ''/prayer-times''"
    by (simp add: prayer_times_url_def)
  then show ?thesis unfolding url_mosque_id_def by (simp only: strip_around_append)
qed


text \<open>The definition with the URL, headers and timeout named.\<close>

lemma direct_cases [op_simps]:
  "fetch_prayer_times_direct E mid t =
     (let get = [HttpGet (prayer_times_url mid) (direct_headers t) 30];
          failed = (\<lambda>err. (Inr JNull, get @
            [Log Error ''Direct prayer times fetch failed for mosque %s: %s'' [AStr mid, AExn err]]))
      in case http_result E (prayer_times_url mid) (direct_headers t) 30 of
           Inl err \<Rightarrow> if is_client_error err then failed err else (Inl err, get)
         | Inr response \<Rightarrow>
             if resp_status response \<noteq> 200 then
               (Inr JNull, get @
                 [Log Error ''Direct prayer times fetch failed: status=%s for mosque %s''
                    [ANat (resp_status response), AStr mid]])
             else (case resp_json response of
                     Inr body \<Rightarrow> (Inr body, get)
                   | Inl err \<Rightarrow> if is_client_error err then failed err else (Inl err, get)))"
  by (simp add: fetch_prayer_times_direct_def direct_timeout_def Let_def)

section \<open>Properties of the direct fetch\<close>

text \<open>
  C20. The direct fetch makes exactly one request, a GET of the prayer-times URL of
  the mosque with the token under \<^verbatim>\<open>Authorization\<close>, a JSON content type and a
  30 second bound, and never retries: everything after it in the trace is an error
  log line.
\<close>

theorem direct_single_request:
  "\<exists>rest. snd (fetch_prayer_times_direct E mid t) =
     HttpGet (prayer_times_url mid) [(''Authorization'', py_str t), (''Content-Type'', ''application/json'')] 30 # rest
   \<and> (\<forall>e \<in> set rest. \<exists>f as. e = Log Error f as)"
  by (simp add: direct_cases direct_headers_def Let_def split: sum.split)

theorem direct_single_request_witness:
  "hd (snd (fetch_prayer_times_direct (stub_env (Inr ''tok'') (Inr []) (Inr JNull, None) (Inl ClientError)) (Some ''m1'') (Some ''tok''))) =
     HttpGet (prayer_times_url (Some ''m1'')) [(''Authorization'', ''tok''), (''Content-Type'', ''application/json'')] 30"
proof -
  obtain rest where "snd (fetch_prayer_times_direct (stub_env (Inr ''tok'') (Inr []) (Inr JNull, None) (Inl ClientError)) (Some ''m1'') (Some ''tok'')) =
     HttpGet (prayer_times_url (Some ''m1'')) [(''Authorization'', ''tok''), (''Content-Type'', ''application/json'')] 30 # rest"
    using direct_single_request [where E = "stub_env (Inr ''tok'') (Inr []) (Inr JNull, None) (Inl ClientError)" and mid = "Some ''m1''" and t = "Some ''tok''"]
    by auto
  then show ?thesis by simp
qed

text \<open>
  C21. A response with a status other than 200 gives \<^verbatim>\<open>None\<close> and one error line
  naming the status and the mosque identifier.
\<close>

theorem direct_non_200:
  assumes "http_result E (prayer_times_url mid) (direct_headers t) 30 = Inr resp"
    and "resp_status resp \<noteq> 200"
  shows "fetch_prayer_times_direct E mid t =
    (Inr JNull, [HttpGet (prayer_times_url mid) (direct_headers t) 30,
       Log Error ''Direct prayer times fetch failed: status=%s for mosque %s''
         [ANat (resp_status resp), AStr mid]])"
  using assms by (simp add: direct_cases)

theorem direct_non_200_witness:
  "http_result (stub_env (Inr ''tok'') (Inr []) (Inr JNull, None) (Inr \<lparr>resp_status = 401, resp_json = Inr JNull\<rparr>))
     (prayer_times_url (Some ''m1'')) (direct_headers (Some ''tok'')) 30
     = Inr \<lparr>resp_status = 401, resp_json = Inr JNull\<rparr>
   \<and> resp_status \<lparr>resp_status = 401, resp_json = Inr JNull\<rparr> \<noteq> (200::nat)
   \<and> fetch_prayer_times_direct (stub_env (Inr ''tok'') (Inr []) (Inr JNull, None)
       (Inr \<lparr>resp_status = 401, resp_json = Inr JNull\<rparr>)) (Some ''m1'') (Some ''tok'') =
    (Inr JNull, [HttpGet (prayer_times_url (Some ''m1'')) (direct_headers (Some ''tok'')) 30,
       Log Error ''Direct prayer times fetch failed: status=%s for mosque %s'' [ANat 401, AStr (Some ''m1'')]])"
  using direct_non_200 [where E = "stub_env (Inr ''tok'') (Inr []) (Inr JNull, None)
      (Inr \<lparr>resp_status = 401, resp_json = Inr JNull\<rparr>)" and mid = "Some ''m1''" and t = "Some ''tok''"
      and resp = "\<lparr>resp_status = 401, resp_json = Inr JNull\<rparr>"]
  by simp

text \<open>
  C23. A transport failure of class \<^verbatim>\<open>aiohttp.ClientError\<close> gives \<^verbatim>\<open>None\<close> and one
  error line naming the mosque identifier and the error.
\<close>

theorem direct_client_error:
  assumes "http_result E (prayer_times_url mid) (direct_headers t) 30 = Inl err"
    and "is_client_error err"
  shows "fetch_prayer_times_direct E mid t =
    (Inr JNull, [HttpGet (prayer_times_url mid) (direct_headers t) 30,
       Log Error ''Direct prayer times fetch failed for mosque %s: %s'' [AStr mid, AExn err]])"
  using assms by (simp add: direct_cases)

theorem direct_client_error_witness:
  "http_result (stub_env (Inr ''tok'') (Inr []) (Inr JNull, None) (Inl ClientError))
     (prayer_times_url (Some ''m1'')) (direct_headers (Some ''tok'')) 30 = Inl ClientError
   \<and> is_client_error ClientError
   \<and> fetch_prayer_times_direct (stub_env (Inr ''tok'') (Inr []) (Inr JNull, None) (Inl ClientError))
       (Some ''m1'') (Some ''tok'') =
    (Inr JNull, [HttpGet (prayer_times_url (Some ''m1'')) (direct_headers (Some ''tok'')) 30,
       Log Error ''Direct prayer times fetch failed for mosque %s: %s'' [AStr (Some ''m1''), AExn ClientError]])"
  using direct_client_error [where E = "stub_env (Inr ''tok'') (Inr []) (Inr JNull, None) (Inl ClientError)"
      and mid = "Some ''m1''" and t = "Some ''tok''" and err = ClientError]
  by simp

text \<open>
  C28. A 200 response whose body does not decode (\<^verbatim>\<open>json.JSONDecodeError\<close>, a
  \<^verbatim>\<open>ValueError\<close>, not an \<^verbatim>\<open>aiohttp.ClientError\<close>) is not caught: the
  exception propagates out of the direct fetch instead of giving \<^verbatim>\<open>None\<close>.
\<close>

theorem direct_malformed_json_escapes:
  assumes "http_result E (prayer_times_url mid) (direct_headers t) 30 = Inr resp"
    and "resp_status resp = 200" and "resp_json resp = Inl ValueError"
  shows "fetch_prayer_times_direct E mid t =
    (Inl ValueError, [HttpGet (prayer_times_url mid) (direct_headers t) 30])"
  using assms by (simp add: direct_cases)

theorem direct_malformed_json_escapes_witness:
  "http_result (stub_env (Inr ''tok'') (Inr []) (Inr JNull, None)
       (Inr \<lparr>resp_status = 200, resp_json = Inl ValueError\<rparr>))
     (prayer_times_url (Some ''m1'')) (direct_headers (Some ''tok'')) 30
     = Inr \<lparr>resp_status = 200, resp_json = Inl ValueError\<rparr>
   \<and> resp_status \<lparr>resp_status = 200::nat, resp_json = Inl ValueError\<rparr> = 200
   \<and> resp_json \<lparr>resp_status = 200::nat, resp_json = Inl ValueError\<rparr> = Inl ValueError
   \<and> fetch_prayer_times_direct (stub_env (Inr ''tok'') (Inr []) (Inr JNull, None)
       (Inr \<lparr>resp_status = 200, resp_json = Inl ValueError\<rparr>)) (Some ''m1'') (Some ''tok'') =
    (Inl ValueError, [HttpGet (prayer_times_url (Some ''m1'')) (direct_headers (Some ''tok'')) 30])"
  using direct_malformed_json_escapes [where E = "stub_env (Inr ''tok'') (Inr []) (Inr JNull, None)
      (Inr \<lparr>resp_status = 200, resp_json = Inl ValueError\<rparr>)"
      and mid = "Some ''m1''" and t = "Some ''tok''" and resp = "\<lparr>resp_status = 200, resp_json = Inl ValueError\<rparr>"]
  by simp

end
