(* ===== verification/Protocol.thy ===== *)
theory Protocol
  imports Client
begin

text \<open>
  The abstract fetch-with-fallback protocol of spec sections 4.3 and 9: a
  primary attempt through the library, then, only after it, at most one fallback
  attempt, a direct GET with the token under \<^verbatim>\<open>Authorization\<close> and a 30 second
  bound. It is a step relation over the network events of a trace; events that
  reach no server (construction, close, log lines) leave the state alone, and a
  login is allowed only before the primary attempt. Traces of the protocol are
  an inductive relation, and rule induction over them bounds the number of
  direct requests. \<^theory_text>\<open>PrayerTimes\<close> shows that every trace of
  \<^verbatim>\<open>fetch_prayer_times\<close> is a trace of this protocol.
\<close>

fun is_network_ev :: "event \<Rightarrow> bool" where
  "is_network_ev (Login _ _) = True"
| "is_network_ev CallNeighborhood = True"
| "is_network_ev (CallKeyword _) = True"
| "is_network_ev CallPrayerTimes = True"
| "is_network_ev (HttpGet _ _ _) = True"
| "is_network_ev _ = False"

fun is_http_get :: "event \<Rightarrow> bool" where
  "is_http_get (HttpGet _ _ _) = True"
| "is_http_get _ = False"

datatype fb_state = PrimaryPending | PrimaryAttempted | FallbackAttempted

inductive fb_step :: "fb_state \<Rightarrow> event \<Rightarrow> fb_state \<Rightarrow> bool" where
  quiet: "\<not> is_network_ev e \<Longrightarrow> fb_step s e s"
| login: "fb_step PrimaryPending (Login u p) PrimaryPending"
| primary: "fb_step PrimaryPending CallPrayerTimes PrimaryAttempted"
| fallback: "(''Authorization'', tok) \<in> set hs \<Longrightarrow>
    fb_step PrimaryAttempted (HttpGet url hs 30) FallbackAttempted"

inductive fb_trace :: "fb_state \<Rightarrow> trace \<Rightarrow> fb_state \<Rightarrow> bool" where
  fb_nil: "fb_trace s [] s"
| fb_cons: "fb_step s e s' \<Longrightarrow> fb_trace s' evs s'' \<Longrightarrow> fb_trace s (e # evs) s''"

text \<open>How many direct requests a state still allows.\<close>

fun fb_budget :: "fb_state \<Rightarrow> nat" where
  "fb_budget FallbackAttempted = 0"
| "fb_budget _ = 1"

inductive_cases fb_step_httpE: "fb_step s (HttpGet url hs t) s'"

section \<open>Composing protocol traces\<close>

lemma fb_trace_append:
  "fb_trace s xs s' \<Longrightarrow> fb_trace s' ys s'' \<Longrightarrow> fb_trace s (xs @ ys) s''"
  by (induction rule: fb_trace.induct) (auto intro: fb_trace.intros)

lemma fb_trace_quiet:
  "\<forall>e \<in> set evs. \<not> is_network_ev e \<Longrightarrow> fb_trace s evs s"
  by (induction evs) (auto intro: fb_trace.intros fb_step.intros)

lemma fb_trace_single: "fb_step s e s' \<Longrightarrow> fb_trace s [e] s'"
  by (blast intro: fb_trace.intros)

section \<open>At most one fallback\<close>

lemma fb_step_budget:
  "fb_step s e s' \<Longrightarrow> (if is_http_get e then 1 else 0) + fb_budget s' \<le> fb_budget s"
  by (induction rule: fb_step.induct) (auto elim: is_network_ev.elims)

lemma fb_trace_http_bound:
  "fb_trace s evs s' \<Longrightarrow> length (filter is_http_get evs) \<le> fb_budget s"
proof (induction rule: fb_trace.induct)
  case (fb_nil s)
  show ?case by simp
next
  case (fb_cons s e s' evs s'')
  from fb_step_budget [OF fb_cons.hyps(1)] fb_cons.IH show ?case
    by (cases "is_http_get e") auto
qed

text \<open>A direct request is always preceded by the primary attempt.\<close>

lemma fb_trace_http_after_primary:
  "fb_trace s evs s' \<Longrightarrow> s = PrimaryPending \<Longrightarrow> evs = xs @ HttpGet url hs t # ys \<Longrightarrow>
   CallPrayerTimes \<in> set xs"
proof (induction arbitrary: xs rule: fb_trace.induct)
  case (fb_nil s)
  then show ?case by simp
next
  case (fb_cons s e s' evs s'')
  show ?case
  proof (cases xs)
    case Nil
    with fb_cons.prems fb_cons.hyps(1) show ?thesis by (auto elim: fb_step_httpE)
  next
    case (Cons x xs')
    with fb_cons.prems have x: "x = e" and evs: "evs = xs' @ HttpGet url hs t # ys" by auto
    show ?thesis
    proof (cases "e = CallPrayerTimes")
      case True
      with x Cons show ?thesis by simp
    next
      case False
      with fb_cons.hyps(1) fb_cons.prems(1) have "s' = PrimaryPending"
        by (auto elim: fb_step.cases)
      with fb_cons.IH evs Cons show ?thesis by simp
    qed
  qed
qed

end
