(* ===== verification/PrayerTimes.thy ===== *)
theory PrayerTimes
  imports Wrappers Direct Protocol
begin

text \<open>
  Fetch Prayer Times, \<^verbatim>\<open>fetch_prayer_times\<close> (\<^verbatim>\<open>mawaqit_wrapper.py\<close>, lines
  181--219): the wrapper skeleton of \<^theory_text>\<open>Wrappers\<close> around the library's
  prayer-time request, with an inner \<^verbatim>\<open>except NotAuthenticatedException\<close> that
  falls back, once, to the direct fetch of \<^theory_text>\<open>Direct\<close> for the mosque
  \<^verbatim>\<open>mosque if mosque else client.mosque\<close> with the client's token. The lemmas
  give the four end-to-end scenarios of spec section 8, that only the
  not-authenticated condition triggers the fallback and where it goes, and that
  every trace is a trace of the abstract protocol of \<^theory_text>\<open>Protocol\<close>, hence
  at most one direct request, always after the primary attempt.
\<close>

definition fetch_prayer_times ::
  "env \<Rightarrow> coord option \<Rightarrow> coord option \<Rightarrow> string option \<Rightarrow> string option \<Rightarrow> string option \<Rightarrow>
   string option \<Rightarrow> (exn + json) \<times> trace" where
  "fetch_prayer_times E latitude longitude mosque username password token =
     finish_op (\<lambda>e. Log Error ''Error on retrieving prayer times: %s'' [AExn e]) JNull
       (case create_authenticated_client E latitude longitude mosque username password token of
          (Inl e, evs) \<Rightarrow> (Inl e, None, evs)
        | (Inr cl, evs) \<Rightarrow>
            (case lib_fetch_prayer_times E cl of
               (r, cl', evs') \<Rightarrow>
                 if r = Inl NotAuthenticatedException then
                   (let mosque_id = (if py_truthy mosque then mosque else c_mosque cl');
                        warn = Log Warning
                          ''Library fetch_prayer_times failed with 401, retrying with Authorization header for mosque %s''
                          [AStr mosque_id]
                    in case fetch_prayer_times_direct E mosque_id (c_token cl') of
                         (r', evs'') \<Rightarrow> (r', Some cl', evs @ evs' @ warn # evs''))
                 else (r, Some cl', evs @ evs')))"

section \<open>The branches\<close>

abbreviation prayer_log :: "exn \<Rightarrow> event" where
  "prayer_log e \<equiv> Log Error ''Error on retrieving prayer times: %s'' [AExn e]"

abbreviation fallback_warning :: "string option \<Rightarrow> event" where
  "fallback_warning mid \<equiv> Log Warning
     ''Library fetch_prayer_times failed with 401, retrying with Authorization header for mosque %s'' [AStr mid]"

lemma fetch_no_client [op_simps]:
  "create_authenticated_client E lat lon m u p t = (Inl e, evs) \<Longrightarrow>
   fetch_prayer_times E lat lon m u p t = finish_op prayer_log JNull (Inl e, None, evs)"
  by (simp add: fetch_prayer_times_def)

lemma fetch_primary [op_simps]:
  assumes "create_authenticated_client E lat lon m u p t = (Inr c, evs)"
    and "prayer_result E c = (r, m')" and "r \<noteq> Inl NotAuthenticatedException"
  shows "fetch_prayer_times E lat lon m u p t =
    finish_op prayer_log JNull (r, Some (c\<lparr>c_mosque := m'\<rparr>), evs @ [CallPrayerTimes])"
  using assms by (simp add: fetch_prayer_times_def lib_fetch_prayer_times_def)

lemma fetch_fallback [op_simps]:
  assumes "create_authenticated_client E lat lon m u p t = (Inr c, evs)"
    and "prayer_result E c = (Inl NotAuthenticatedException, m')"
  shows "fetch_prayer_times E lat lon m u p t =
    (let mid = (if py_truthy m then m else m')
     in case fetch_prayer_times_direct E mid (c_token c) of
          (r', evs'') \<Rightarrow> finish_op prayer_log JNull
             (r', Some (c\<lparr>c_mosque := m'\<rparr>), evs @ CallPrayerTimes # fallback_warning mid # evs''))"
  using assms by (simp add: fetch_prayer_times_def lib_fetch_prayer_times_def Let_def split: prod.split)

section \<open>Refinement of the fallback protocol\<close>

lemma create_protocol:
  "fb_trace PrimaryPending (snd (create_authenticated_client E lat lon m u p t)) PrimaryPending"
proof (cases "py_truthy u \<and> py_truthy p")
  case True
  then show ?thesis
    by (auto simp: create_credentials split: sum.split
        intro!: fb_trace.intros fb_step.intros)
next
  case False
  then show ?thesis by (auto simp: create_token_only intro!: fb_trace.intros fb_step.intros)
qed

lemma direct_protocol:
  "fb_trace PrimaryAttempted (snd (fetch_prayer_times_direct E mid tok)) FallbackAttempted"
proof -
  have get: "fb_step PrimaryAttempted (HttpGet (prayer_times_url mid) (direct_headers tok) 30) FallbackAttempted"
    by (rule fb_step.fallback [where tok = "py_str tok"]) (simp add: direct_headers_def)
  show ?thesis
    by (auto simp: direct_cases Let_def split: sum.split
        intro!: fb_trace.intros get fb_step.quiet)
qed

lemma finish_op_protocol:
  assumes "fb_trace s evs s'" and "\<forall>e. \<not> is_network_ev (L e)"
  shows "fb_trace s (snd (finish_op L d (r, cl, evs))) s'"
proof -
  have tail: "fb_trace s' xs s'" if "\<forall>e \<in> set xs. \<not> is_network_ev e" for xs
    using that by (rule fb_trace_quiet)
  show ?thesis
    using assms
    by (cases r) (auto simp: finish_op_def close_if_set_def lib_close_def split: sum.split option.split
        intro!: fb_trace_append tail)
qed

lemma fetch_trace_protocol:
  "\<exists>s'. fb_trace PrimaryPending (snd (fetch_prayer_times E lat lon m u p t)) s'"
proof (cases "create_authenticated_client E lat lon m u p t")
  case (Pair r evs)
  have pre: "fb_trace PrimaryPending evs PrimaryPending"
    using create_protocol [of E lat lon m u p t] Pair by simp
  show ?thesis
  proof (cases r)
    case (Inl e)
    with Pair pre show ?thesis
      by (auto simp: fetch_no_client intro!: finish_op_protocol)
  next
    case (Inr c)
    obtain r1 m' where pr: "prayer_result E c = (r1, m')" by (cases "prayer_result E c")
    have call: "fb_trace PrimaryPending (evs @ [CallPrayerTimes]) PrimaryAttempted"
      using pre by (blast intro: fb_trace_append fb_trace_single fb_step.primary)
    show ?thesis
    proof (cases "r1 = Inl NotAuthenticatedException")
      case True
      let ?mid = "if py_truthy m then m else m'"
      obtain r' evs'' where d: "fetch_prayer_times_direct E ?mid (c_token c) = (r', evs'')"
        by (cases "fetch_prayer_times_direct E ?mid (c_token c)")
      have "fb_trace PrimaryAttempted evs'' FallbackAttempted"
        using direct_protocol [of E ?mid "c_token c"] d by simp
      then have "fb_trace PrimaryAttempted (fallback_warning ?mid # evs'') FallbackAttempted"
        by (intro fb_trace.fb_cons [OF fb_step.quiet]) simp_all
      with call have "fb_trace PrimaryPending (evs @ CallPrayerTimes # fallback_warning ?mid # evs'') FallbackAttempted"
        using fb_trace_append by fastforce
      with Pair Inr pr True d show ?thesis
        by (auto simp: fetch_fallback intro!: finish_op_protocol)
    next
      case False
      with Pair Inr pr call show ?thesis
        by (auto simp: fetch_primary intro!: finish_op_protocol)
    qed
  qed
qed

section \<open>Properties of the prayer-time fetch\<close>

text \<open>
  C8. End-to-end scenario 1: when the library's prayer-time request succeeds,
  the wrapper returns its calendar, makes no direct request, and closes the client.
\<close>

theorem prayer_primary_success:
  assumes "create_authenticated_client E lat lon m u p t = (Inr c, evs)"
    and "prayer_result E c = (Inr cal, m')"
  shows "fetch_prayer_times E lat lon m u p t = (Inr cal, evs @ [CallPrayerTimes, Close])"
  using assms by (simp add: fetch_primary finish_op_simps)

theorem prayer_primary_success_witness:
  "create_authenticated_client (stub_env (Inr ''tok'') (Inr []) (Inr (JObj [(''fajr'', JStr ''05:10'')]), Some ''m1'') (Inl ClientError)) None None (Some ''m1'') (Some ''user'') (Some ''pw'') None =
      (Inr (new_client None None (Some ''m1'') (Some ''user'') (Some ''pw'') (Some ''tok'')),
       [Log Debug ''Creating client with credentials, will perform fresh login'' [],
        Construct (new_client None None (Some ''m1'') (Some ''user'') (Some ''pw'') None),
        Login (Some ''user'') (Some ''pw''), Log Debug ''Fresh login succeeded, token obtained'' []])
   \<and> prayer_result (stub_env (Inr ''tok'') (Inr []) (Inr (JObj [(''fajr'', JStr ''05:10'')]), Some ''m1'') (Inl ClientError)) (new_client None None (Some ''m1'') (Some ''user'') (Some ''pw'') (Some ''tok'')) = (Inr (JObj [(''fajr'', JStr ''05:10'')]), Some ''m1'')
   \<and> fetch_prayer_times (stub_env (Inr ''tok'') (Inr []) (Inr (JObj [(''fajr'', JStr ''05:10'')]), Some ''m1'') (Inl ClientError)) None None (Some ''m1'') (Some ''user'') (Some ''pw'') None =
      (Inr (JObj [(''fajr'', JStr ''05:10'')]), [Log Debug ''Creating client with credentials, will perform fresh login'' [],
        Construct (new_client None None (Some ''m1'') (Some ''user'') (Some ''pw'') None),
        Login (Some ''user'') (Some ''pw''), Log Debug ''Fresh login succeeded, token obtained'' []] @ [CallPrayerTimes, Close])"
proof -
  have c: "create_authenticated_client (stub_env (Inr ''tok'') (Inr []) (Inr (JObj [(''fajr'', JStr ''05:10'')]), Some ''m1'') (Inl ClientError)) None None (Some ''m1'') (Some ''user'') (Some ''pw'') None =
      (Inr (new_client None None (Some ''m1'') (Some ''user'') (Some ''pw'') (Some ''tok'')),
       [Log Debug ''Creating client with credentials, will perform fresh login'' [],
        Construct (new_client None None (Some ''m1'') (Some ''user'') (Some ''pw'') None),
        Login (Some ''user'') (Some ''pw''), Log Debug ''Fresh login succeeded, token obtained'' []])"
    by (simp add: create_credentials)
  show ?thesis
    using c prayer_primary_success [OF c, where cal = "JObj [(''fajr'', JStr ''05:10'')]" and m' = "Some ''m1''"] by simp
qed

text \<open>
  C9. End-to-end scenario 2: when the library's request is refused as not
  authenticated and the direct request answers 200, the wrapper returns the direct
  answer; the trace shows the primary attempt, the warning, exactly one direct GET
  to the resolved mosque with the session's token, and the close.
\<close>

theorem prayer_fallback_success:
  assumes "create_authenticated_client E lat lon m u p t = (Inr c, evs)"
    and "prayer_result E c = (Inl NotAuthenticatedException, m')"
    and "http_result E (prayer_times_url (if py_truthy m then m else m')) (direct_headers (c_token c)) 30 = Inr resp"
    and "resp_status resp = 200" and "resp_json resp = Inr cal"
  shows "fetch_prayer_times E lat lon m u p t =
    (Inr cal, evs @ [CallPrayerTimes, fallback_warning (if py_truthy m then m else m'),
       HttpGet (prayer_times_url (if py_truthy m then m else m')) (direct_headers (c_token c)) 30, Close])"
  using assms by (simp add: fetch_fallback direct_cases finish_op_simps)

theorem prayer_fallback_success_witness:
  "create_authenticated_client (stub_env (Inr ''tok'') (Inr []) (Inl NotAuthenticatedException, Some ''m1'') (Inr \<lparr>resp_status = 200, resp_json = Inr (JObj [(''fajr'', JStr ''05:10'')])\<rparr>)) None None (Some ''m1'') (Some ''user'') (Some ''pw'') None =
      (Inr (new_client None None (Some ''m1'') (Some ''user'') (Some ''pw'') (Some ''tok'')),
       [Log Debug ''Creating client with credentials, will perform fresh login'' [],
        Construct (new_client None None (Some ''m1'') (Some ''user'') (Some ''pw'') None),
        Login (Some ''user'') (Some ''pw''), Log Debug ''Fresh login succeeded, token obtained'' []])
   \<and> prayer_result (stub_env (Inr ''tok'') (Inr []) (Inl NotAuthenticatedException, Some ''m1'') (Inr \<lparr>resp_status = 200, resp_json = Inr (JObj [(''fajr'', JStr ''05:10'')])\<rparr>)) (new_client None None (Some ''m1'') (Some ''user'') (Some ''pw'') (Some ''tok'')) = (Inl NotAuthenticatedException, Some ''m1'')
   \<and> http_result (stub_env (Inr ''tok'') (Inr []) (Inl NotAuthenticatedException, Some ''m1'') (Inr \<lparr>resp_status = 200, resp_json = Inr (JObj [(''fajr'', JStr ''05:10'')])\<rparr>)) (prayer_times_url (Some ''m1'')) (direct_headers (Some ''tok'')) 30 = Inr \<lparr>resp_status = 200, resp_json = Inr (JObj [(''fajr'', JStr ''05:10'')])\<rparr>
   \<and> resp_status \<lparr>resp_status = 200, resp_json = Inr (JObj [(''fajr'', JStr ''05:10'')])\<rparr> = (200::nat) \<and> resp_json \<lparr>resp_status = 200, resp_json = Inr (JObj [(''fajr'', JStr ''05:10'')])\<rparr> = Inr (JObj [(''fajr'', JStr ''05:10'')])
   \<and> fetch_prayer_times (stub_env (Inr ''tok'') (Inr []) (Inl NotAuthenticatedException, Some ''m1'') (Inr \<lparr>resp_status = 200, resp_json = Inr (JObj [(''fajr'', JStr ''05:10'')])\<rparr>)) None None (Some ''m1'') (Some ''user'') (Some ''pw'') None =
      (Inr (JObj [(''fajr'', JStr ''05:10'')]), [Log Debug ''Creating client with credentials, will perform fresh login'' [],
        Construct (new_client None None (Some ''m1'') (Some ''user'') (Some ''pw'') None),
        Login (Some ''user'') (Some ''pw''), Log Debug ''Fresh login succeeded, token obtained'' []] @ [CallPrayerTimes, fallback_warning (Some ''m1''),
         HttpGet (prayer_times_url (Some ''m1'')) (direct_headers (Some ''tok'')) 30, Close])"
proof -
  have c: "create_authenticated_client (stub_env (Inr ''tok'') (Inr []) (Inl NotAuthenticatedException, Some ''m1'') (Inr \<lparr>resp_status = 200, resp_json = Inr (JObj [(''fajr'', JStr ''05:10'')])\<rparr>)) None None (Some ''m1'') (Some ''user'') (Some ''pw'') None =
      (Inr (new_client None None (Some ''m1'') (Some ''user'') (Some ''pw'') (Some ''tok'')),
       [Log Debug ''Creating client with credentials, will perform fresh login'' [],
        Construct (new_client None None (Some ''m1'') (Some ''user'') (Some ''pw'') None),
        Login (Some ''user'') (Some ''pw''), Log Debug ''Fresh login succeeded, token obtained'' []])"
    by (simp add: create_credentials)
  show ?thesis
    using c prayer_fallback_success [OF c, where m' = "Some ''m1''" and resp = "\<lparr>resp_status = 200, resp_json = Inr (JObj [(''fajr'', JStr ''05:10'')])\<rparr>" and cal = "JObj [(''fajr'', JStr ''05:10'')]"]
    by simp
qed

text \<open>
  C10. End-to-end scenario 3: when the library's request is refused as not
  authenticated and the direct request answers with another status (401), the
  wrapper returns \<^verbatim>\<open>None\<close> after logging the status and the mosque identifier,
  makes no further attempt, and closes the client.
\<close>

theorem prayer_fallback_rejected:
  assumes "create_authenticated_client E lat lon m u p t = (Inr c, evs)"
    and "prayer_result E c = (Inl NotAuthenticatedException, m')"
    and "http_result E (prayer_times_url (if py_truthy m then m else m')) (direct_headers (c_token c)) 30 = Inr resp"
    and "resp_status resp \<noteq> 200"
  shows "fetch_prayer_times E lat lon m u p t =
    (Inr JNull, evs @ [CallPrayerTimes, fallback_warning (if py_truthy m then m else m'),
       HttpGet (prayer_times_url (if py_truthy m then m else m')) (direct_headers (c_token c)) 30,
       Log Error ''Direct prayer times fetch failed: status=%s for mosque %s''
         [ANat (resp_status resp), AStr (if py_truthy m then m else m')], Close])"
  using assms by (simp add: fetch_fallback direct_cases finish_op_simps)

theorem prayer_fallback_rejected_witness:
  "create_authenticated_client (stub_env (Inr ''tok'') (Inr []) (Inl NotAuthenticatedException, Some ''m1'') (Inr \<lparr>resp_status = 401, resp_json = Inr JNull\<rparr>)) None None (Some ''m1'') (Some ''user'') (Some ''pw'') None =
      (Inr (new_client None None (Some ''m1'') (Some ''user'') (Some ''pw'') (Some ''tok'')),
       [Log Debug ''Creating client with credentials, will perform fresh login'' [],
        Construct (new_client None None (Some ''m1'') (Some ''user'') (Some ''pw'') None),
        Login (Some ''user'') (Some ''pw''), Log Debug ''Fresh login succeeded, token obtained'' []])
   \<and> prayer_result (stub_env (Inr ''tok'') (Inr []) (Inl NotAuthenticatedException, Some ''m1'') (Inr \<lparr>resp_status = 401, resp_json = Inr JNull\<rparr>)) (new_client None None (Some ''m1'') (Some ''user'') (Some ''pw'') (Some ''tok'')) = (Inl NotAuthenticatedException, Some ''m1'')
   \<and> http_result (stub_env (Inr ''tok'') (Inr []) (Inl NotAuthenticatedException, Some ''m1'') (Inr \<lparr>resp_status = 401, resp_json = Inr JNull\<rparr>)) (prayer_times_url (Some ''m1'')) (direct_headers (Some ''tok'')) 30 = Inr \<lparr>resp_status = 401, resp_json = Inr JNull\<rparr>
   \<and> resp_status \<lparr>resp_status = 401, resp_json = Inr JNull\<rparr> \<noteq> (200::nat)
   \<and> fetch_prayer_times (stub_env (Inr ''tok'') (Inr []) (Inl NotAuthenticatedException, Some ''m1'') (Inr \<lparr>resp_status = 401, resp_json = Inr JNull\<rparr>)) None None (Some ''m1'') (Some ''user'') (Some ''pw'') None =
      (Inr JNull, [Log Debug ''Creating client with credentials, will perform fresh login'' [],
        Construct (new_client None None (Some ''m1'') (Some ''user'') (Some ''pw'') None),
        Login (Some ''user'') (Some ''pw''), Log Debug ''Fresh login succeeded, token obtained'' []] @ [CallPrayerTimes, fallback_warning (Some ''m1''),
         HttpGet (prayer_times_url (Some ''m1'')) (direct_headers (Some ''tok'')) 30,
         Log Error ''Direct prayer times fetch failed: status=%s for mosque %s'' [ANat 401, AStr (Some ''m1'')],
         Close])"
proof -
  have c: "create_authenticated_client (stub_env (Inr ''tok'') (Inr []) (Inl NotAuthenticatedException, Some ''m1'') (Inr \<lparr>resp_status = 401, resp_json = Inr JNull\<rparr>)) None None (Some ''m1'') (Some ''user'') (Some ''pw'') None =
      (Inr (new_client None None (Some ''m1'') (Some ''user'') (Some ''pw'') (Some ''tok'')),
       [Log Debug ''Creating client with credentials, will perform fresh login'' [],
        Construct (new_client None None (Some ''m1'') (Some ''user'') (Some ''pw'') None),
        Login (Some ''user'') (Some ''pw''), Log Debug ''Fresh login succeeded, token obtained'' []])"
    by (simp add: create_credentials)
  show ?thesis
    using c prayer_fallback_rejected [OF c, where m' = "Some ''m1''" and resp = "\<lparr>resp_status = 401, resp_json = Inr JNull\<rparr>"]
    by simp
qed

section \<open>Where direct requests come from\<close>

lemma create_no_http:
  "ev \<in> set (snd (create_authenticated_client E lat lon m u p t)) \<Longrightarrow> \<not> is_http_get ev"
  by (cases "py_truthy u \<and> py_truthy p")
     (auto simp: create_credentials create_token_only split: sum.splits if_splits)

lemma direct_http:
  "HttpGet url hs to \<in> set (snd (fetch_prayer_times_direct E mid tok)) \<Longrightarrow>
   url = prayer_times_url mid \<and> hs = direct_headers tok \<and> to = 30"
  by (auto simp: direct_cases Let_def split: sum.splits if_splits)

lemma finish_op_http:
  "\<forall>e url hs to. HttpGet url hs to \<noteq> L e \<Longrightarrow>
   HttpGet url hs to \<in> set (snd (finish_op L d (r, cl, evs))) \<longleftrightarrow> HttpGet url hs to \<in> set evs"
  by (cases r) (auto simp: finish_op_def close_if_set_def lib_close_def split: sum.split option.split)

text \<open>
  C7. Only the not-authenticated condition triggers the fallback: any other
  failure of the library's request (bad credentials included) makes no direct
  request, and gives \<^verbatim>\<open>None\<close> for the two recognised classes and the exception
  itself otherwise.
\<close>

theorem prayer_no_fallback_on_other_errors:
  assumes "create_authenticated_client E lat lon m u p t = (Inr c, evs)"
    and "prayer_result E c = (Inl e, m')" and "e \<noteq> NotAuthenticatedException"
  shows "fst (fetch_prayer_times E lat lon m u p t) =
      (if is_auth_exn e \<or> is_network_exn e then Inr JNull else Inl e)
    \<and> (\<forall>ev \<in> set (snd (fetch_prayer_times E lat lon m u p t)). \<not> is_http_get ev)"
proof -
  have "\<not> is_http_get ev" if "ev \<in> set evs" for ev
    using that create_no_http [of ev E lat lon m u p t] assms(1) by simp
  with assms show ?thesis
    by (auto simp: fetch_primary finish_op_def split: if_splits)
qed

theorem prayer_no_fallback_on_other_errors_witness:
  "create_authenticated_client (stub_env (Inr ''tok'') (Inr []) (Inl BadCredentialsException, Some ''m1'') (Inl ClientError)) None None (Some ''m1'') (Some ''user'') (Some ''pw'') None =
      (Inr (new_client None None (Some ''m1'') (Some ''user'') (Some ''pw'') (Some ''tok'')),
       [Log Debug ''Creating client with credentials, will perform fresh login'' [],
        Construct (new_client None None (Some ''m1'') (Some ''user'') (Some ''pw'') None),
        Login (Some ''user'') (Some ''pw''), Log Debug ''Fresh login succeeded, token obtained'' []])
   \<and> prayer_result (stub_env (Inr ''tok'') (Inr []) (Inl BadCredentialsException, Some ''m1'') (Inl ClientError)) (new_client None None (Some ''m1'') (Some ''user'') (Some ''pw'') (Some ''tok'')) = (Inl BadCredentialsException, Some ''m1'')
   \<and> BadCredentialsException \<noteq> NotAuthenticatedException
   \<and> fst (fetch_prayer_times (stub_env (Inr ''tok'') (Inr []) (Inl BadCredentialsException, Some ''m1'') (Inl ClientError)) None None (Some ''m1'') (Some ''user'') (Some ''pw'') None) = Inr JNull
   \<and> filter is_http_get (snd (fetch_prayer_times (stub_env (Inr ''tok'') (Inr []) (Inl BadCredentialsException, Some ''m1'') (Inl ClientError)) None None (Some ''m1'') (Some ''user'') (Some ''pw'') None)) = []"
proof -
  have c: "create_authenticated_client (stub_env (Inr ''tok'') (Inr []) (Inl BadCredentialsException, Some ''m1'') (Inl ClientError)) None None (Some ''m1'') (Some ''user'') (Some ''pw'') None =
      (Inr (new_client None None (Some ''m1'') (Some ''user'') (Some ''pw'') (Some ''tok'')),
       [Log Debug ''Creating client with credentials, will perform fresh login'' [],
        Construct (new_client None None (Some ''m1'') (Some ''user'') (Some ''pw'') None),
        Login (Some ''user'') (Some ''pw''), Log Debug ''Fresh login succeeded, token obtained'' []])"
    by (simp add: create_credentials)
  show ?thesis
    using c prayer_no_fallback_on_other_errors [OF c, where e = BadCredentialsException and m' = "Some ''m1''"]
    by (simp add: filter_empty_conv)
qed

text \<open>
  C6. Every direct request of the prayer-time fetch follows a not-authenticated
  refusal of the library's request, goes to the prayer-times URL of the explicitly
  given mosque if it is truthy and otherwise of the mosque the client holds after
  the library call, carries the client's token under \<^verbatim>\<open>Authorization\<close>, and has
  the 30 second bound.
\<close>

theorem prayer_fallback_target:
  assumes "create_authenticated_client E lat lon m u p t = (Inr c, evs)"
    and "HttpGet url hs to \<in> set (snd (fetch_prayer_times E lat lon m u p t))"
  shows "fst (prayer_result E c) = Inl NotAuthenticatedException
    \<and> url = prayer_times_url (if py_truthy m then m else snd (prayer_result E c))
    \<and> hs = direct_headers (c_token c) \<and> to = 30"
proof (cases "prayer_result E c")
  case (Pair r m')
  have no_create: "HttpGet url hs to \<notin> set evs"
    using create_no_http [of "HttpGet url hs to" E lat lon m u p t] assms(1) by auto
  show ?thesis
  proof (cases "r = Inl NotAuthenticatedException")
    case True
    let ?mid = "if py_truthy m then m else m'"
    obtain r' evs'' where d: "fetch_prayer_times_direct E ?mid (c_token c) = (r', evs'')"
      by (cases "fetch_prayer_times_direct E ?mid (c_token c)")
    from assms(2) have "HttpGet url hs to \<in> set (evs @ CallPrayerTimes # fallback_warning ?mid # evs'')"
      using assms(1) Pair True d by (simp add: fetch_fallback finish_op_http del: set_append)
    with no_create have "HttpGet url hs to \<in> set (snd (fetch_prayer_times_direct E ?mid (c_token c)))"
      using d by simp
    then have "url = prayer_times_url ?mid \<and> hs = direct_headers (c_token c) \<and> to = 30"
      by (rule direct_http)
    with Pair True show ?thesis by simp
  next
    case False
    from assms(2) have "HttpGet url hs to \<in> set (evs @ [CallPrayerTimes])"
      using assms(1) Pair False by (simp add: fetch_primary finish_op_http del: set_append)
    with no_create show ?thesis by simp
  qed
qed

theorem prayer_fallback_target_witness:
  "create_authenticated_client (stub_env (Inr ''tok'') (Inr []) (Inl NotAuthenticatedException, Some ''m1'') (Inr \<lparr>resp_status = 200, resp_json = Inr (JObj [(''fajr'', JStr ''05:10'')])\<rparr>)) None None (Some ''m1'') (Some ''user'') (Some ''pw'') None =
      (Inr (new_client None None (Some ''m1'') (Some ''user'') (Some ''pw'') (Some ''tok'')),
       [Log Debug ''Creating client with credentials, will perform fresh login'' [],
        Construct (new_client None None (Some ''m1'') (Some ''user'') (Some ''pw'') None),
        Login (Some ''user'') (Some ''pw''), Log Debug ''Fresh login succeeded, token obtained'' []])
   \<and> HttpGet (prayer_times_url (Some ''m1'')) (direct_headers (Some ''tok'')) 30 \<in> set (snd (fetch_prayer_times (stub_env (Inr ''tok'') (Inr []) (Inl NotAuthenticatedException, Some ''m1'') (Inr \<lparr>resp_status = 200, resp_json = Inr (JObj [(''fajr'', JStr ''05:10'')])\<rparr>)) None None (Some ''m1'') (Some ''user'') (Some ''pw'') None))
   \<and> fst (prayer_result (stub_env (Inr ''tok'') (Inr []) (Inl NotAuthenticatedException, Some ''m1'') (Inr \<lparr>resp_status = 200, resp_json = Inr (JObj [(''fajr'', JStr ''05:10'')])\<rparr>)) (new_client None None (Some ''m1'') (Some ''user'') (Some ''pw'') (Some ''tok''))) = Inl NotAuthenticatedException
   \<and> prayer_times_url (Some ''m1'') = prayer_times_url (if py_truthy (Some ''m1'') then Some ''m1'' else snd (prayer_result (stub_env (Inr ''tok'') (Inr []) (Inl NotAuthenticatedException, Some ''m1'') (Inr \<lparr>resp_status = 200, resp_json = Inr (JObj [(''fajr'', JStr ''05:10'')])\<rparr>)) (new_client None None (Some ''m1'') (Some ''user'') (Some ''pw'') (Some ''tok''))))
   \<and> direct_headers (Some ''tok'') = direct_headers (c_token (new_client None None (Some ''m1'') (Some ''user'') (Some ''pw'') (Some ''tok'')))"
proof -
  have c: "create_authenticated_client (stub_env (Inr ''tok'') (Inr []) (Inl NotAuthenticatedException, Some ''m1'') (Inr \<lparr>resp_status = 200, resp_json = Inr (JObj [(''fajr'', JStr ''05:10'')])\<rparr>)) None None (Some ''m1'') (Some ''user'') (Some ''pw'') None =
      (Inr (new_client None None (Some ''m1'') (Some ''user'') (Some ''pw'') (Some ''tok'')),
       [Log Debug ''Creating client with credentials, will perform fresh login'' [],
        Construct (new_client None None (Some ''m1'') (Some ''user'') (Some ''pw'') None),
        Login (Some ''user'') (Some ''pw''), Log Debug ''Fresh login succeeded, token obtained'' []])"
    by (simp add: create_credentials)
  have get: "HttpGet (prayer_times_url (Some ''m1'')) (direct_headers (Some ''tok'')) 30 \<in> set (snd (fetch_prayer_times (stub_env (Inr ''tok'') (Inr []) (Inl NotAuthenticatedException, Some ''m1'') (Inr \<lparr>resp_status = 200, resp_json = Inr (JObj [(''fajr'', JStr ''05:10'')])\<rparr>)) None None (Some ''m1'') (Some ''user'') (Some ''pw'') None))"
    using c by (simp add: fetch_fallback direct_cases finish_op_simps Let_def)
  show ?thesis
    using c get prayer_fallback_target [OF c get] by blast
qed

text \<open>
  C5. At most one fallback: every trace of the prayer-time fetch is a trace of the
  abstract fetch-with-fallback protocol, so it holds at most one direct request,
  and any direct request comes after the library's prayer-time request.
\<close>

theorem prayer_at_most_one_fallback:
  "length (filter is_http_get (snd (fetch_prayer_times E lat lon m u p t))) \<le> 1
   \<and> (\<forall>xs url hs to ys. snd (fetch_prayer_times E lat lon m u p t) = xs @ HttpGet url hs to # ys
        \<longrightarrow> CallPrayerTimes \<in> set xs)"
proof -
  obtain s' where tr: "fb_trace PrimaryPending (snd (fetch_prayer_times E lat lon m u p t)) s'"
    using fetch_trace_protocol by blast
  show ?thesis
    using fb_trace_http_bound [OF tr] fb_trace_http_after_primary [OF tr] by auto
qed

theorem prayer_at_most_one_fallback_witness:
  "length (filter is_http_get (snd (fetch_prayer_times (stub_env (Inr ''tok'') (Inr []) (Inl NotAuthenticatedException, Some ''m1'') (Inl ClientError)) None None None None None (Some ''tok'')))) \<le> 1
   \<and> snd (fetch_prayer_times (stub_env (Inr ''tok'') (Inr []) (Inl NotAuthenticatedException, Some ''m1'') (Inl ClientError)) None None None None None (Some ''tok'')) =
       [Log Debug ''Creating client with existing token only (no credentials)'' [],
        Construct (new_client None None None None None (Some ''tok'')), CallPrayerTimes, fallback_warning (Some ''m1'')] @
       HttpGet (prayer_times_url (Some ''m1'')) (direct_headers (Some ''tok'')) 30 # [Log Error ''Direct prayer times fetch failed for mosque %s: %s'' [AStr (Some ''m1''), AExn ClientError], Close]
   \<and> CallPrayerTimes \<in> set [Log Debug ''Creating client with existing token only (no credentials)'' [],
        Construct (new_client None None None None None (Some ''tok'')), CallPrayerTimes, fallback_warning (Some ''m1'')]"
proof -
  have c: "create_authenticated_client (stub_env (Inr ''tok'') (Inr []) (Inl NotAuthenticatedException, Some ''m1'') (Inl ClientError)) None None None None None (Some ''tok'') =
      (Inr (new_client None None None None None (Some ''tok'')),
       [Log Debug ''Creating client with existing token only (no credentials)'' [],
        Construct (new_client None None None None None (Some ''tok''))])"
    by (simp add: create_token_only)
  have tr: "snd (fetch_prayer_times (stub_env (Inr ''tok'') (Inr []) (Inl NotAuthenticatedException, Some ''m1'') (Inl ClientError)) None None None None None (Some ''tok'')) =
       [Log Debug ''Creating client with existing token only (no credentials)'' [],
        Construct (new_client None None None None None (Some ''tok'')), CallPrayerTimes, fallback_warning (Some ''m1'')] @
       HttpGet (prayer_times_url (Some ''m1'')) (direct_headers (Some ''tok'')) 30 # [Log Error ''Direct prayer times fetch failed for mosque %s: %s'' [AStr (Some ''m1''), AExn ClientError], Close]"
    using c by (simp add: fetch_fallback direct_cases finish_op_simps Let_def)
  note bound = prayer_at_most_one_fallback [where E = "stub_env (Inr ''tok'') (Inr []) (Inl NotAuthenticatedException, Some ''m1'') (Inl ClientError)" and lat = None and lon = None and m = None
      and u = None and p = None and t = "Some ''tok''"]
  from bound have "length (filter is_http_get (snd (fetch_prayer_times (stub_env (Inr ''tok'') (Inr []) (Inl NotAuthenticatedException, Some ''m1'') (Inl ClientError)) None None None None None (Some ''tok'')))) \<le> 1"
    by (rule conjunct1)
  moreover from bound tr have "CallPrayerTimes \<in> set [Log Debug ''Creating client with existing token only (no credentials)'' [],
        Construct (new_client None None None None None (Some ''tok'')), CallPrayerTimes, fallback_warning (Some ''m1'')]"
    by blast
  ultimately show ?thesis using tr by simp
qed

text \<open>
  C24. A transport failure of the direct request that is no
  \<^verbatim>\<open>aiohttp.ClientError\<close> but a network error (the asyncio timeout of the 30
  second bound) escapes the direct fetch and is caught by the wrapper: the result
  is \<^verbatim>\<open>None\<close>, logged as a network error, and the client is closed.
\<close>

theorem prayer_fallback_timeout:
  assumes "create_authenticated_client E lat lon m u p t = (Inr c, evs)"
    and "prayer_result E c = (Inl NotAuthenticatedException, m')"
    and "http_result E (prayer_times_url (if py_truthy m then m else m')) (direct_headers (c_token c)) 30 = Inl err"
    and "is_network_exn err" and "\<not> is_client_error err"
  shows "fetch_prayer_times E lat lon m u p t =
    (Inr JNull, evs @ [CallPrayerTimes, fallback_warning (if py_truthy m then m else m'),
       HttpGet (prayer_times_url (if py_truthy m then m else m')) (direct_headers (c_token c)) 30,
       Log Error ''Network-related error: %s'' [AExn err], Close])"
  using assms by (simp add: fetch_fallback direct_cases finish_op_simps)

theorem prayer_fallback_timeout_witness:
  "create_authenticated_client (stub_env (Inr ''tok'') (Inr []) (Inl NotAuthenticatedException, Some ''m1'') (Inl TimeoutError)) None None (Some ''m1'') (Some ''user'') (Some ''pw'') None =
      (Inr (new_client None None (Some ''m1'') (Some ''user'') (Some ''pw'') (Some ''tok'')),
       [Log Debug ''Creating client with credentials, will perform fresh login'' [],
        Construct (new_client None None (Some ''m1'') (Some ''user'') (Some ''pw'') None),
        Login (Some ''user'') (Some ''pw''), Log Debug ''Fresh login succeeded, token obtained'' []])
   \<and> prayer_result (stub_env (Inr ''tok'') (Inr []) (Inl NotAuthenticatedException, Some ''m1'') (Inl TimeoutError)) (new_client None None (Some ''m1'') (Some ''user'') (Some ''pw'') (Some ''tok'')) = (Inl NotAuthenticatedException, Some ''m1'')
   \<and> http_result (stub_env (Inr ''tok'') (Inr []) (Inl NotAuthenticatedException, Some ''m1'') (Inl TimeoutError)) (prayer_times_url (Some ''m1'')) (direct_headers (Some ''tok'')) 30 = Inl TimeoutError
   \<and> is_network_exn TimeoutError \<and> \<not> is_client_error TimeoutError
   \<and> fetch_prayer_times (stub_env (Inr ''tok'') (Inr []) (Inl NotAuthenticatedException, Some ''m1'') (Inl TimeoutError)) None None (Some ''m1'') (Some ''user'') (Some ''pw'') None =
      (Inr JNull, [Log Debug ''Creating client with credentials, will perform fresh login'' [],
        Construct (new_client None None (Some ''m1'') (Some ''user'') (Some ''pw'') None),
        Login (Some ''user'') (Some ''pw''), Log Debug ''Fresh login succeeded, token obtained'' []] @ [CallPrayerTimes, fallback_warning (Some ''m1''),
         HttpGet (prayer_times_url (Some ''m1'')) (direct_headers (Some ''tok'')) 30, Log Error ''Network-related error: %s'' [AExn TimeoutError], Close])"
proof -
  have c: "create_authenticated_client (stub_env (Inr ''tok'') (Inr []) (Inl NotAuthenticatedException, Some ''m1'') (Inl TimeoutError)) None None (Some ''m1'') (Some ''user'') (Some ''pw'') None =
      (Inr (new_client None None (Some ''m1'') (Some ''user'') (Some ''pw'') (Some ''tok'')),
       [Log Debug ''Creating client with credentials, will perform fresh login'' [],
        Construct (new_client None None (Some ''m1'') (Some ''user'') (Some ''pw'') None),
        Login (Some ''user'') (Some ''pw''), Log Debug ''Fresh login succeeded, token obtained'' []])"
    by (simp add: create_credentials)
  show ?thesis
    using c prayer_fallback_timeout [OF c, where m' = "Some ''m1''" and err = TimeoutError]
    by simp
qed

text \<open>
  C27. With no credentials, no token and no mosque identifier, and a library that
  refuses the request and resolves no mosque, the fallback still fires: it requests
  the URL of the mosque literally named \<^verbatim>\<open>None\<close> and sends the text
  \<^verbatim>\<open>None\<close> as the \<^verbatim>\<open>Authorization\<close> header.
\<close>

theorem prayer_fallback_without_ids:
  assumes "prayer_result E (new_client lat lon None None None None) = (Inl NotAuthenticatedException, None)"
  shows "HttpGet ''https://mawaqit.net/api/2.0/mosque/None/prayer-times''
      [(''Authorization'', ''None''), (''Content-Type'', ''application/json'')] 30
    \<in> set (snd (fetch_prayer_times E lat lon None None None None))"
proof -
  have c: "create_authenticated_client E lat lon None None None None =
      (Inr (new_client lat lon None None None None),
       [Log Debug ''Creating client with existing token only (no credentials)'' [],
        Construct (new_client lat lon None None None None)])"
    by (simp add: create_token_only)
  have "HttpGet (prayer_times_url None) (direct_headers None) 30
      \<in> set (snd (fetch_prayer_times E lat lon None None None None))"
    using assms by (simp add: fetch_fallback [OF c] direct_cases finish_op_def Let_def split: sum.split)
  then show ?thesis by (simp add: prayer_times_url_def MAWAQIT_API_BASE_def direct_headers_def)
qed

theorem prayer_fallback_without_ids_witness:
  "prayer_result (stub_env (Inr ''tok'') (Inr []) (Inl NotAuthenticatedException, None) (Inl ClientError))
     (new_client None None None None None None) = (Inl NotAuthenticatedException, None)
   \<and> HttpGet ''https://mawaqit.net/api/2.0/mosque/None/prayer-times''
      [(''Authorization'', ''None''), (''Content-Type'', ''application/json'')] 30
    \<in> set (snd (fetch_prayer_times (stub_env (Inr ''tok'') (Inr []) (Inl NotAuthenticatedException, None)
        (Inl ClientError)) None None None None None None))"
  using prayer_fallback_without_ids [where E = "stub_env (Inr ''tok'') (Inr []) (Inl NotAuthenticatedException, None)
      (Inl ClientError)" and lat = None and lon = None]
  by simp

text \<open>
  C29. A 200 answer of the direct request whose body does not decode raises a
  \<^verbatim>\<open>ValueError\<close> that neither the direct fetch nor the wrapper catches: it
  leaves \<^verbatim>\<open>fetch_prayer_times\<close>, after the client is closed.
\<close>

theorem prayer_malformed_json_escapes:
  assumes "create_authenticated_client E lat lon m u p t = (Inr c, evs)"
    and "prayer_result E c = (Inl NotAuthenticatedException, m')"
    and "http_result E (prayer_times_url (if py_truthy m then m else m')) (direct_headers (c_token c)) 30 = Inr resp"
    and "resp_status resp = 200" and "resp_json resp = Inl ValueError"
  shows "fetch_prayer_times E lat lon m u p t =
    (Inl ValueError, evs @ [CallPrayerTimes, fallback_warning (if py_truthy m then m else m'),
       HttpGet (prayer_times_url (if py_truthy m then m else m')) (direct_headers (c_token c)) 30, Close])"
  using assms by (simp add: fetch_fallback direct_cases finish_op_simps)

theorem prayer_malformed_json_escapes_witness:
  "create_authenticated_client (stub_env (Inr ''tok'') (Inr []) (Inl NotAuthenticatedException, Some ''m1'') (Inr \<lparr>resp_status = 200, resp_json = Inl ValueError\<rparr>)) None None (Some ''m1'') (Some ''user'') (Some ''pw'') None =
      (Inr (new_client None None (Some ''m1'') (Some ''user'') (Some ''pw'') (Some ''tok'')),
       [Log Debug ''Creating client with credentials, will perform fresh login'' [],
        Construct (new_client None None (Some ''m1'') (Some ''user'') (Some ''pw'') None),
        Login (Some ''user'') (Some ''pw''), Log Debug ''Fresh login succeeded, token obtained'' []])
   \<and> prayer_result (stub_env (Inr ''tok'') (Inr []) (Inl NotAuthenticatedException, Some ''m1'') (Inr \<lparr>resp_status = 200, resp_json = Inl ValueError\<rparr>)) (new_client None None (Some ''m1'') (Some ''user'') (Some ''pw'') (Some ''tok'')) = (Inl NotAuthenticatedException, Some ''m1'')
   \<and> http_result (stub_env (Inr ''tok'') (Inr []) (Inl NotAuthenticatedException, Some ''m1'') (Inr \<lparr>resp_status = 200, resp_json = Inl ValueError\<rparr>)) (prayer_times_url (Some ''m1'')) (direct_headers (Some ''tok'')) 30 = Inr \<lparr>resp_status = 200, resp_json = Inl ValueError\<rparr>
   \<and> resp_status \<lparr>resp_status = 200, resp_json = Inl ValueError\<rparr> = (200::nat) \<and> resp_json \<lparr>resp_status = 200, resp_json = Inl ValueError\<rparr> = Inl ValueError
   \<and> fetch_prayer_times (stub_env (Inr ''tok'') (Inr []) (Inl NotAuthenticatedException, Some ''m1'') (Inr \<lparr>resp_status = 200, resp_json = Inl ValueError\<rparr>)) None None (Some ''m1'') (Some ''user'') (Some ''pw'') None =
      (Inl ValueError, [Log Debug ''Creating client with credentials, will perform fresh login'' [],
        Construct (new_client None None (Some ''m1'') (Some ''user'') (Some ''pw'') None),
        Login (Some ''user'') (Some ''pw''), Log Debug ''Fresh login succeeded, token obtained'' []] @ [CallPrayerTimes, fallback_warning (Some ''m1''),
         HttpGet (prayer_times_url (Some ''m1'')) (direct_headers (Some ''tok'')) 30, Close])"
proof -
  have c: "create_authenticated_client (stub_env (Inr ''tok'') (Inr []) (Inl NotAuthenticatedException, Some ''m1'') (Inr \<lparr>resp_status = 200, resp_json = Inl ValueError\<rparr>)) None None (Some ''m1'') (Some ''user'') (Some ''pw'') None =
      (Inr (new_client None None (Some ''m1'') (Some ''user'') (Some ''pw'') (Some ''tok'')),
       [Log Debug ''Creating client with credentials, will perform fresh login'' [],
        Construct (new_client None None (Some ''m1'') (Some ''user'') (Some ''pw'') None),
        Login (Some ''user'') (Some ''pw''), Log Debug ''Fresh login succeeded, token obtained'' []])"
    by (simp add: create_credentials)
  show ?thesis
    using c prayer_malformed_json_escapes [OF c, where m' = "Some ''m1''" and resp = "\<lparr>resp_status = 200, resp_json = Inl ValueError\<rparr>"]
    by simp
qed

section \<open>The session contract\<close>

lemma direct_passive: "\<forall>e \<in> set (snd (fetch_prayer_times_direct E mid tok)). is_passive e"
  by (simp add: direct_cases Let_def split: sum.split)

lemma fetch_prayer_times_session_cases:
  "session_run NoSession (snd (fetch_prayer_times E lat lon m u p t)) =
    (if fst (create_authenticated_client E lat lon m u p t) = Inl CancelledError then Live else Released)"
proof (cases "create_authenticated_client E lat lon m u p t")
  case (Pair r evs)
  note sess = create_session [of E lat lon m u p t, unfolded Pair, simplified]
  show ?thesis
  proof (cases r)
    case (Inl e)
    with sess Pair show ?thesis by (simp add: fetch_no_client finish_op_session is_exception_iff)
  next
    case (Inr c)
    obtain r1 m' where pr: "prayer_result E c = (r1, m')" by (cases "prayer_result E c")
    show ?thesis
    proof (cases "r1 = Inl NotAuthenticatedException")
      case True
      let ?mid = "if py_truthy m then m else m'"
      obtain r' evs'' where d: "fetch_prayer_times_direct E ?mid (c_token c) = (r', evs'')"
        by (cases "fetch_prayer_times_direct E ?mid (c_token c)")
      have "session_run Live evs'' = Live"
        using direct_passive [of E ?mid "c_token c"] d by (simp add: session_run_passive)
      with sess Inr Pair pr True d show ?thesis
        by (simp add: fetch_fallback finish_op_session Let_def split del: if_split)
    next
      case False
      with sess Inr Pair pr show ?thesis by (simp add: fetch_primary finish_op_session)
    qed
  qed
qed

lemma fetch_prayer_times_session:
  "fst (fetch_prayer_times E lat lon m u p t) \<noteq> Inl CancelledError \<Longrightarrow>
   session_run NoSession (snd (fetch_prayer_times E lat lon m u p t)) = Released"
  using fetch_prayer_times_session_cases [of E lat lon m u p t]
  by (cases "create_authenticated_client E lat lon m u p t")
     (auto simp: fetch_no_client finish_op_simps split: if_splits)

section \<open>The requests of the prayer-time fetch\<close>

text \<open>The three paths of \<^verbatim>\<open>fetch_prayer_times\<close> as a case-split rule.\<close>

lemma fetch_prayer_times_split:
  "P (fetch_prayer_times E lat lon m u p t) \<longleftrightarrow>
     (\<forall>e evs. create_authenticated_client E lat lon m u p t = (Inl e, evs) \<longrightarrow>
        P (finish_op prayer_log JNull (Inl e, None, evs)))
   \<and> (\<forall>c evs r m'. create_authenticated_client E lat lon m u p t = (Inr c, evs) \<longrightarrow>
        prayer_result E c = (r, m') \<longrightarrow> r \<noteq> Inl NotAuthenticatedException \<longrightarrow>
        P (finish_op prayer_log JNull (r, Some (c\<lparr>c_mosque := m'\<rparr>), evs @ [CallPrayerTimes])))
   \<and> (\<forall>c evs m' r' evs''. create_authenticated_client E lat lon m u p t = (Inr c, evs) \<longrightarrow>
        prayer_result E c = (Inl NotAuthenticatedException, m') \<longrightarrow>
        fetch_prayer_times_direct E (if py_truthy m then m else m') (c_token c) = (r', evs'') \<longrightarrow>
        P (finish_op prayer_log JNull (r', Some (c\<lparr>c_mosque := m'\<rparr>),
             evs @ CallPrayerTimes # fallback_warning (if py_truthy m then m else m') # evs'')))"
proof -
  obtain r evs where cr: "create_authenticated_client E lat lon m u p t = (r, evs)" by fastforce
  show ?thesis
  proof (cases r)
    case (Inl e)
    with cr show ?thesis by (simp add: fetch_no_client)
  next
    case (Inr c)
    obtain r1 m' where pr: "prayer_result E c = (r1, m')" by fastforce
    obtain r' evs'' where d: "fetch_prayer_times_direct E (if py_truthy m then m else m') (c_token c) = (r', evs'')"
      by fastforce
    show ?thesis
      using cr Inr pr d
      by (cases "r1 = Inl NotAuthenticatedException") (simp_all add: fetch_primary fetch_fallback Let_def)
  qed
qed

lemma direct_client_calls:
  "fetch_prayer_times_direct E mid tok = (r, evs) \<Longrightarrow> filter is_client_call evs = []"
  using direct_passive [of E mid tok] by (fastforce simp: filter_empty_conv elim: is_passive.elims)

text \<open>Counting the requests that reach a server.\<close>

lemma create_network:
  "length (filter is_network_ev (snd (create_authenticated_client E lat lon m u p t))) =
     (if py_truthy u \<and> py_truthy p then 1 else 0)"
  by (cases "py_truthy u \<and> py_truthy p")
     (auto simp: create_credentials create_token_only split: sum.split)

lemma direct_network:
  "fetch_prayer_times_direct E mid tok = (r, evs) \<Longrightarrow> length (filter is_network_ev evs) = 1"
  by (auto simp: direct_cases Let_def split: sum.splits if_splits)

lemma factory_call_network:
  assumes "\<And>c. length (filter is_network_ev (snd (snd (call c)))) \<le> k"
    and "\<forall>e. \<not> is_network_ev (L e)"
  shows "length (filter is_network_ev (snd (finish_op L d (factory_call E lat lon m u p t call)))) \<le> 1 + k"
proof (cases "create_authenticated_client E lat lon m u p t")
  case (Pair r evs)
  have c: "length (filter is_network_ev evs) \<le> 1"
    using create_network [of E lat lon m u p t] Pair by simp
  show ?thesis
  proof (cases r)
    case (Inl e)
    with Pair c assms(2) show ?thesis by (simp add: finish_op_filter)
  next
    case (Inr cl)
    obtain r' cl' evs' where call: "call cl = (r', cl', evs')" by (cases "call cl") auto
    with assms(1) [of cl] have "length (filter is_network_ev evs') \<le> k" by simp
    with Pair Inr call c assms(2) show ?thesis by (simp add: finish_op_filter)
  qed
qed

end
