(* ===== verification/FetchMachine.thy ===== *)
theory FetchMachine
  imports PrayerTimes
begin

text \<open>
  The fetch-with-fallback as the explicit state machine of spec section 9:
  \<open>Acquire \<rightarrow> PrimaryAttempt \<rightarrow> (on ProtocolMismatch) FallbackAttempt \<rightarrow> Result\<close>.
  \<open>fetch_step\<close> performs the work of one state, on the same library model and
  the same direct fetch as \<^verbatim>\<open>fetch_prayer_times\<close>; \<open>fetch_run\<close> iterates it
  until a \<open>Result\<close> and terminates because every step lowers the phase rank.
  The lemmas show that the machine, followed by the wrapper's
  \<^verbatim>\<open>except\<close>/\<^verbatim>\<open>finally\<close> skeleton, computes exactly what the exception-driven
  code computes, and an invariant of every reachable configuration that ties it
  to the session contract and to the fallback protocol.
\<close>

text \<open>The arguments of one call of \<^verbatim>\<open>fetch_prayer_times\<close>.\<close>

record fetch_req =
  fr_latitude :: "coord option"
  fr_longitude :: "coord option"
  fr_mosque :: "string option"
  fr_username :: "string option"
  fr_password :: "string option"
  fr_token :: "string option"

datatype fetch_state =
    Acquire
  | PrimaryAttempt client
  | FallbackAttempt client "string option"
  | Result "exn + json" "client option"

fun phase_rank :: "fetch_state \<Rightarrow> nat" where
  "phase_rank Acquire = 3"
| "phase_rank (PrimaryAttempt _) = 2"
| "phase_rank (FallbackAttempt _ _) = 1"
| "phase_rank (Result _ _) = 0"

fun fetch_step :: "env \<Rightarrow> fetch_req \<Rightarrow> fetch_state \<Rightarrow> fetch_state \<times> trace" where
  "fetch_step E q Acquire =
     (case create_authenticated_client E (fr_latitude q) (fr_longitude q) (fr_mosque q)
             (fr_username q) (fr_password q) (fr_token q) of
        (Inl e, evs) \<Rightarrow> (Result (Inl e) None, evs)
      | (Inr c, evs) \<Rightarrow> (PrimaryAttempt c, evs))"
| "fetch_step E q (PrimaryAttempt c) =
     (case lib_fetch_prayer_times E c of
        (r, c', evs) \<Rightarrow>
          if r = Inl NotAuthenticatedException
          then (FallbackAttempt c' (if py_truthy (fr_mosque q) then fr_mosque q else c_mosque c'), evs)
          else (Result r (Some c'), evs))"
| "fetch_step E q (FallbackAttempt c mid) =
     (case fetch_prayer_times_direct E mid (c_token c) of
        (r, evs) \<Rightarrow> (Result r (Some c), fallback_warning mid # evs))"
| "fetch_step E q (Result r cl) = (Result r cl, [])"

function fetch_run ::
  "env \<Rightarrow> fetch_req \<Rightarrow> fetch_state \<Rightarrow> trace \<Rightarrow> (exn + json) \<times> client option \<times> trace" where
  "fetch_run E q s evs =
     (case s of
        Result r cl \<Rightarrow> (r, cl, evs)
      | _ \<Rightarrow> (case fetch_step E q s of (s', evs') \<Rightarrow> fetch_run E q s' (evs @ evs')))"
  by pat_completeness auto

termination
proof (relation "measure (\<lambda>(E, q, s, evs). phase_rank s)")
  show "wf (measure (\<lambda>(E, q, s, evs). phase_rank s))" by simp
qed (auto split: prod.splits sum.splits if_splits)

declare fetch_run.simps [simp del]

text \<open>\<^verbatim>\<open>fetch_prayer_times\<close> as the machine followed by the skeleton.\<close>

definition fetch_by_machine :: "env \<Rightarrow> fetch_req \<Rightarrow> (exn + json) \<times> trace" where
  "fetch_by_machine E q = finish_op prayer_log JNull (fetch_run E q Acquire [])"

text \<open>The configurations the machine reaches from \<open>Acquire\<close>.\<close>

inductive fetch_reach :: "env \<Rightarrow> fetch_req \<Rightarrow> fetch_state \<times> trace \<Rightarrow> bool" for E q where
  start: "fetch_reach E q (Acquire, [])"
| step: "fetch_reach E q (s, evs) \<Longrightarrow> fetch_step E q s = (s', evs') \<Longrightarrow> fetch_reach E q (s', evs @ evs')"

text \<open>What a configuration promises: the session automaton's state for the trace
  so far, and the abstract protocol state it has reached.\<close>

fun phase_ok :: "fetch_state \<Rightarrow> session \<Rightarrow> fb_state \<Rightarrow> bool" where
  "phase_ok Acquire ss a = (ss = NoSession \<and> a = PrimaryPending)"
| "phase_ok (PrimaryAttempt _) ss a = (ss = Live \<and> a = PrimaryPending)"
| "phase_ok (FallbackAttempt _ _) ss a = (ss = Live \<and> a = PrimaryAttempted)"
| "phase_ok (Result _ None) ss a = (ss = Released \<or> ss = Live)"
| "phase_ok (Result _ (Some _)) ss a = (ss = Live)"

definition fetch_inv :: "fetch_state \<Rightarrow> trace \<Rightarrow> bool" where
  "fetch_inv s evs \<longleftrightarrow> (\<exists>a. fb_trace PrimaryPending evs a \<and> phase_ok s (session_run NoSession evs) a)"

section \<open>Running the machine\<close>

lemma fetch_run_Result [simp]: "fetch_run E q (Result r cl) evs = (r, cl, evs)"
  by (simp add: fetch_run.simps)

lemma fetch_run_step:
  "\<forall>r cl. s \<noteq> Result r cl \<Longrightarrow>
   fetch_run E q s evs = (case fetch_step E q s of (s', evs') \<Rightarrow> fetch_run E q s' (evs @ evs'))"
  by (cases s) (simp_all add: fetch_run.simps)

lemmas fetch_run_simps = fetch_run_Result fetch_run_step

section \<open>The machine computes what the code computes\<close>

text \<open>
  C30. The explicit state machine of spec section 9, followed by the wrapper's
  \<^verbatim>\<open>except\<close>/\<^verbatim>\<open>finally\<close> skeleton, returns the same result and produces
  the same trace as the exception-driven \<^verbatim>\<open>fetch_prayer_times\<close>, for every
  library and network behaviour and every argument.
\<close>

theorem fetch_machine_equiv:
  "fetch_by_machine E q = fetch_prayer_times E (fr_latitude q) (fr_longitude q) (fr_mosque q)
     (fr_username q) (fr_password q) (fr_token q)"
proof (cases "create_authenticated_client E (fr_latitude q) (fr_longitude q) (fr_mosque q)
                (fr_username q) (fr_password q) (fr_token q)")
  case (Pair r evs)
  show ?thesis
  proof (cases r)
    case (Inl e)
    with Pair show ?thesis by (simp add: fetch_by_machine_def fetch_no_client fetch_run_simps)
  next
    case (Inr c)
    obtain r1 m' where pr: "prayer_result E c = (r1, m')" by fastforce
    show ?thesis
    proof (cases "r1 = Inl NotAuthenticatedException")
      case True
      with Pair Inr pr show ?thesis
        by (simp add: fetch_by_machine_def fetch_fallback fetch_run_simps lib_fetch_prayer_times_def
            Let_def split: prod.split)
    next
      case False
      with Pair Inr pr show ?thesis
        by (simp add: fetch_by_machine_def fetch_primary fetch_run_simps lib_fetch_prayer_times_def)
    qed
  qed
qed

section \<open>An invariant of the reachable configurations\<close>

lemma fetch_inv_Acquire:
  assumes "fetch_inv Acquire evs" and "fetch_step E q Acquire = (s', evs')"
  shows "fetch_inv s' (evs @ evs')"
proof -
  let ?c = "create_authenticated_client E (fr_latitude q) (fr_longitude q) (fr_mosque q)
              (fr_username q) (fr_password q) (fr_token q)"
  from assms(1) have fb: "fb_trace PrimaryPending evs PrimaryPending"
    and ss: "session_run NoSession evs = NoSession" by (auto simp: fetch_inv_def)
  have "fb_trace PrimaryPending (evs @ snd ?c) PrimaryPending"
    using fb create_protocol by (rule fb_trace_append)
  moreover note create_session [of E "fr_latitude q" "fr_longitude q" "fr_mosque q"
      "fr_username q" "fr_password q" "fr_token q"]
  ultimately show ?thesis
    using assms(2) ss by (auto simp: fetch_inv_def split: prod.splits sum.splits if_splits)
qed

lemma fetch_inv_PrimaryAttempt:
  assumes "fetch_inv (PrimaryAttempt c) evs" and "fetch_step E q (PrimaryAttempt c) = (s', evs')"
  shows "fetch_inv s' (evs @ evs')"
proof -
  from assms(1) have "fb_trace PrimaryPending evs PrimaryPending"
    and ss: "session_run NoSession evs = Live" by (auto simp: fetch_inv_def)
  then have "fb_trace PrimaryPending (evs @ [CallPrayerTimes]) PrimaryAttempted"
    by (blast intro: fb_trace_append fb_trace_single fb_step.primary)
  with assms(2) ss show ?thesis
    by (auto simp: fetch_inv_def lib_fetch_prayer_times_eq split: if_splits)
qed

lemma fetch_inv_FallbackAttempt:
  assumes "fetch_inv (FallbackAttempt c mid) evs" and "fetch_step E q (FallbackAttempt c mid) = (s', evs')"
  shows "fetch_inv s' (evs @ evs')"
proof -
  obtain r evs'' where d: "fetch_prayer_times_direct E mid (c_token c) = (r, evs'')" by fastforce
  from assms(1) have fb: "fb_trace PrimaryPending evs PrimaryAttempted"
    and ss: "session_run NoSession evs = Live" by (auto simp: fetch_inv_def)
  have "fb_trace PrimaryAttempted (fallback_warning mid # evs'') FallbackAttempted"
    using direct_protocol [of E mid "c_token c"] d by (intro fb_trace.fb_cons [OF fb_step.quiet]) simp_all
  with fb have "fb_trace PrimaryPending (evs @ fallback_warning mid # evs'') FallbackAttempted"
    by (rule fb_trace_append)
  moreover have "session_run Live evs'' = Live"
    using direct_passive [of E mid "c_token c"] d by (simp add: session_run_passive)
  ultimately show ?thesis
    using assms(2) d ss by (auto simp: fetch_inv_def)
qed

lemma fetch_inv_step:
  "fetch_inv s evs \<Longrightarrow> fetch_step E q s = (s', evs') \<Longrightarrow> fetch_inv s' (evs @ evs')"
  by (cases s) (auto intro: fetch_inv_Acquire fetch_inv_PrimaryAttempt fetch_inv_FallbackAttempt)

text \<open>
  C31. Every configuration the fetch machine reaches satisfies its invariant:
  the session automaton is in the state the phase promises (no client before
  \<open>Acquire\<close> ends, a live client in both attempts and while a result holds a
  client) and the trace so far is a trace of the abstract fallback protocol in
  the phase's protocol state; hence at most one direct request has been made.
\<close>

theorem fetch_reach_inv:
  "fetch_reach E q (s, evs) \<Longrightarrow> fetch_inv s evs \<and> length (filter is_http_get evs) \<le> 1"
proof (induction "(s, evs)" arbitrary: s evs rule: fetch_reach.induct)
  case start
  then show ?case by (auto simp: fetch_inv_def intro: fb_trace.intros)
next
  case (step s evs s' evs')
  then have "fetch_inv s' (evs @ evs')" by (blast intro: fetch_inv_step)
  moreover from this obtain a where "fb_trace PrimaryPending (evs @ evs') a" by (auto simp: fetch_inv_def)
  then have "length (filter is_http_get (evs @ evs')) \<le> fb_budget PrimaryPending"
    by (rule fb_trace_http_bound)
  ultimately show ?case by simp
qed

theorem fetch_reach_inv_witness:
  "fetch_reach (stub_env (Inr ''tok'') (Inr []) (Inl NotAuthenticatedException, Some ''m1'') (Inr \<lparr>resp_status = 200, resp_json = Inr JNull\<rparr>))
     \<lparr>fr_latitude = None, fr_longitude = None, fr_mosque = None, fr_username = None, fr_password = None, fr_token = Some ''tok''\<rparr>
     (FallbackAttempt (new_client None None (Some ''m1'') None None (Some ''tok'')) (Some ''m1''),
      [Log Debug ''Creating client with existing token only (no credentials)'' [],
       Construct (new_client None None None None None (Some ''tok'')), CallPrayerTimes])
   \<and> fetch_inv (FallbackAttempt (new_client None None (Some ''m1'') None None (Some ''tok'')) (Some ''m1''))
      [Log Debug ''Creating client with existing token only (no credentials)'' [],
       Construct (new_client None None None None None (Some ''tok'')), CallPrayerTimes]
   \<and> length (filter is_http_get
      [Log Debug ''Creating client with existing token only (no credentials)'' [],
       Construct (new_client None None None None None (Some ''tok'')), CallPrayerTimes]) \<le> 1"
proof -
  let ?E = "stub_env (Inr ''tok'') (Inr []) (Inl NotAuthenticatedException, Some ''m1'') (Inr \<lparr>resp_status = 200, resp_json = Inr JNull\<rparr>)"
  let ?q = "\<lparr>fr_latitude = None, fr_longitude = None, fr_mosque = None, fr_username = None, fr_password = None, fr_token = Some ''tok''\<rparr>"
  have r1: "fetch_reach ?E ?q (PrimaryAttempt (new_client None None None None None (Some ''tok'')),
      [] @ [Log Debug ''Creating client with existing token only (no credentials)'' [],
       Construct (new_client None None None None None (Some ''tok''))])"
    by (rule fetch_reach.step [OF fetch_reach.start]) (simp add: create_token_only)
  have r2: "fetch_reach ?E ?q (FallbackAttempt (new_client None None (Some ''m1'') None None (Some ''tok'')) (Some ''m1''),
      ([] @ [Log Debug ''Creating client with existing token only (no credentials)'' [],
       Construct (new_client None None None None None (Some ''tok''))]) @ [CallPrayerTimes])"
    by (rule fetch_reach.step [OF r1]) (simp add: lib_fetch_prayer_times_eq new_client_def)
  show ?thesis using r2 fetch_reach_inv [OF r2] by simp
qed

end
