(* ===== verification/Modes.thy ===== *)
theory Modes
  imports Factory
begin

text \<open>
  The Session Factory against the design of spec section 9, which makes its
  implicit choice (whether a token is passed to the constructor) an explicit
  variant: \<open>CredentialLogin\<close>, construct unauthenticated and then acquire a
  token, or \<open>TokenOnly\<close>, construct already authenticated. \<open>auth_mode_of\<close>
  reads the variant off the arguments, \<open>acquire_session\<close> runs it on the same
  library model. The lemmas show that the factory is this design up to its
  debug lines, and that every client it returns is well formed: it carries a
  credential pair and the token of the login it just made, or no credentials at
  all, and the caller's coordinates and mosque.
\<close>

datatype auth_mode = CredentialLogin string string | TokenOnly "string option"

text \<open>Python's \<^verbatim>\<open>if username and password\<close>: both present and non-empty.\<close>

fun auth_mode_of :: "string option \<Rightarrow> string option \<Rightarrow> string option \<Rightarrow> auth_mode" where
  "auth_mode_of (Some u) (Some p) t = (if u \<noteq> [] \<and> p \<noteq> [] then CredentialLogin u p else TokenOnly t)"
| "auth_mode_of _ _ t = TokenOnly t"

definition acquire_session ::
  "env \<Rightarrow> coord option \<Rightarrow> coord option \<Rightarrow> string option \<Rightarrow> auth_mode \<Rightarrow> (exn + client) \<times> trace" where
  "acquire_session E lat lon m mode =
     (case mode of
        CredentialLogin u p \<Rightarrow>
          (let c = new_client lat lon m (Some u) (Some p) None
           in case lib_get_api_token E c of
                (Inr _, c', evs) \<Rightarrow> (Inr c', Construct c # evs)
              | (Inl e, c', evs) \<Rightarrow>
                  (Inl e, Construct c # evs @ (if is_exception e then lib_close c' else [])))
      | TokenOnly t \<Rightarrow>
          (let c = new_client lat lon m None None t in (Inr c, [Construct c])))"

fun is_log :: "event \<Rightarrow> bool" where
  "is_log (Log _ _ _) = True"
| "is_log _ = False"

text \<open>A client as the factory hands it out.\<close>

definition client_wf :: "client \<Rightarrow> bool" where
  "client_wf c \<longleftrightarrow>
     (py_truthy (c_username c) \<and> py_truthy (c_password c) \<and> c_token c \<noteq> None)
     \<or> (c_username c = None \<and> c_password c = None)"

section \<open>The variant\<close>

lemma auth_mode_of_credentials:
  "(\<exists>u' p'. auth_mode_of u p t = CredentialLogin u' p') \<longleftrightarrow> py_truthy u \<and> py_truthy p"
  by (cases u; cases p) auto

lemma auth_mode_of_CredentialLogin:
  "auth_mode_of u p t = CredentialLogin u' p' \<Longrightarrow> u = Some u' \<and> p = Some p'"
  by (cases u; cases p) (auto split: if_splits)

lemma auth_mode_of_TokenOnly:
  "auth_mode_of u p t = TokenOnly t' \<Longrightarrow> t' = t"
  by (cases u; cases p) (auto split: if_splits)


lemma auth_mode_of_token_only:
  "\<not> (py_truthy u \<and> py_truthy p) \<Longrightarrow> auth_mode_of u p t = TokenOnly t"
  using auth_mode_of_credentials [of u p t]
  by (cases "auth_mode_of u p t") (auto dest: auth_mode_of_TokenOnly)

section \<open>Properties of the factory against the variant\<close>

text \<open>
  C32. The Session Factory is the explicit two-variant design of spec section 9:
  on every input and every library behaviour it returns what
  \<open>acquire_session\<close> returns for the variant \<open>auth_mode_of\<close> reads off the
  arguments, and makes the same requests and the same close, in the same order;
  the two differ only in the factory's debug lines.
\<close>

theorem factory_is_mode_dispatch:
  "fst (create_authenticated_client E lat lon m u p t) = fst (acquire_session E lat lon m (auth_mode_of u p t))
   \<and> filter (\<lambda>e. \<not> is_log e) (snd (create_authenticated_client E lat lon m u p t))
       = snd (acquire_session E lat lon m (auth_mode_of u p t))"
proof (cases "auth_mode_of u p t")
  case (CredentialLogin u' p')
  then have u: "u = Some u'" and p: "p = Some p'" by (auto dest: auth_mode_of_CredentialLogin)
  from CredentialLogin have "py_truthy u \<and> py_truthy p" using auth_mode_of_credentials by blast
  with CredentialLogin show ?thesis
    by (simp add: u p create_credentials acquire_session_def lib_get_api_token_no_token lib_close_def
        new_client_def split: sum.split)
next
  case (TokenOnly t')
  then have "\<not> (py_truthy u \<and> py_truthy p)" and "t' = t"
    using auth_mode_of_credentials [of u p t] by (auto dest: auth_mode_of_TokenOnly)
  with TokenOnly show ?thesis by (simp add: create_token_only acquire_session_def Let_def)
qed

text \<open>
  C33. Every client the factory returns is well formed and carries the call's
  data: the caller's coordinates and mosque; with credentials, the credential
  pair and the token of the login it has just made; without, the caller's token
  and no credentials.
\<close>

theorem factory_client_wf:
  "fst (create_authenticated_client E lat lon m u p t) = Inr c \<Longrightarrow>
   client_wf c \<and> c_latitude c = lat \<and> c_longitude c = lon \<and> c_mosque c = m
   \<and> (if py_truthy u \<and> py_truthy p
      then c_username c = u \<and> c_password c = p \<and> login_result E u p = Inr (the (c_token c))
      else c_token c = t)"
  by (cases "py_truthy u \<and> py_truthy p")
     (auto simp: create_credentials create_token_only client_wf_def split: sum.splits)

theorem factory_client_wf_witness:
  "fst (create_authenticated_client (stub_env (Inr ''tok'') (Inr []) (Inr JNull, None) (Inl ClientError))
          None None (Some ''m1'') (Some ''user'') (Some ''pw'') (Some ''stale''))
     = Inr (new_client None None (Some ''m1'') (Some ''user'') (Some ''pw'') (Some ''tok''))
   \<and> client_wf (new_client None None (Some ''m1'') (Some ''user'') (Some ''pw'') (Some ''tok''))
   \<and> c_token (new_client None None (Some ''m1'') (Some ''user'') (Some ''pw'') (Some ''tok'')) = Some ''tok''"
proof -
  have c: "fst (create_authenticated_client (stub_env (Inr ''tok'') (Inr []) (Inr JNull, None) (Inl ClientError))
          None None (Some ''m1'') (Some ''user'') (Some ''pw'') (Some ''stale''))
     = Inr (new_client None None (Some ''m1'') (Some ''user'') (Some ''pw'') (Some ''tok''))"
    by (simp add: create_credentials)
  show ?thesis using c factory_client_wf [OF c] by simp
qed

end
