(* ===== verification/Service.thy ===== *)
theory Service
  imports Modes PrayerTimes
begin

text \<open>
  A concrete upstream service (spec section 6), in place of the oracle: the
  accounts it knows with the token each login issues, the calendar of each
  mosque it serves, and its mosque listing. It answers the library's requests
  and the direct GET the way the spec describes the boundary: a login succeeds
  for a known credential pair; a listing needs a valid token; the library's own
  prayer-time request is refused as not authenticated, because the service does
  not accept the header convention the library uses (the situation the fallback
  of spec section 4.3 exists for); the REST endpoint reads the mosque identifier
  out of the URL and the token out of the \<^verbatim>\<open>Authorization\<close> header.
  \<open>service_env\<close> turns a service into the \<open>env\<close> the wrapper runs against, and
  \<open>prayer_spec\<close> states, at the level of the service, what a prayer-time fetch
  should return. The lemmas show that the wrapper implements it.
\<close>

record service =
  sv_accounts :: "((string \<times> string) \<times> string) list"
  sv_calendars :: "(string \<times> json) list"
  sv_mosques :: "json list"

definition token_valid :: "service \<Rightarrow> string \<Rightarrow> bool" where
  "token_valid S tok \<longleftrightarrow> tok \<in> set (map snd (sv_accounts S))"

text \<open>The token a login with these credentials is issued, if any.\<close>

definition sv_issued :: "service \<Rightarrow> string option \<Rightarrow> string option \<Rightarrow> string option" where
  "sv_issued S u p =
     (case (u, p) of
        (Some u', Some p') \<Rightarrow> map_of (sv_accounts S) (u', p')
      | _ \<Rightarrow> None)"

definition sv_login :: "service \<Rightarrow> string option \<Rightarrow> string option \<Rightarrow> exn + string" where
  "sv_login S u p =
     (case sv_issued S u p of
        Some tok \<Rightarrow> Inr tok
      | None \<Rightarrow> Inl BadCredentialsException)"

definition sv_listing :: "service \<Rightarrow> client \<Rightarrow> exn + json list" where
  "sv_listing S c =
     (case c_token c of
        Some tok \<Rightarrow> if token_valid S tok then Inr (sv_mosques S) else Inl NotAuthenticatedException
      | None \<Rightarrow> Inl NotAuthenticatedException)"

text \<open>The prayer-times endpoint for one mosque identifier and the request's headers.\<close>

definition sv_prayer_times :: "service \<Rightarrow> string \<Rightarrow> (string \<times> string) list \<Rightarrow> response" where
  "sv_prayer_times S mid hs =
     (case map_of hs ''Authorization'' of
        Some tok \<Rightarrow>
          if token_valid S tok then
            (case map_of (sv_calendars S) mid of
               Some cal \<Rightarrow> \<lparr>resp_status = 200, resp_json = Inr cal\<rparr>
             | None \<Rightarrow> \<lparr>resp_status = 404, resp_json = Inr JNull\<rparr>)
          else \<lparr>resp_status = 401, resp_json = Inr JNull\<rparr>
      | None \<Rightarrow> \<lparr>resp_status = 401, resp_json = Inr JNull\<rparr>)"

definition sv_http :: "service \<Rightarrow> string \<Rightarrow> (string \<times> string) list \<Rightarrow> nat \<Rightarrow> exn + response" where
  "sv_http S url hs to =
     (case url_mosque_id url of
        Some mid \<Rightarrow> Inr (sv_prayer_times S mid hs)
      | None \<Rightarrow> Inr \<lparr>resp_status = 404, resp_json = Inr JNull\<rparr>)"

definition service_env :: "service \<Rightarrow> env" where
  "service_env S =
     \<lparr>login_result = sv_login S,
      neighborhood_result = sv_listing S,
      keyword_result = (\<lambda>_. sv_listing S),
      prayer_result = (\<lambda>c. (Inl NotAuthenticatedException, c_mosque c)),
      http_result = sv_http S\<rparr>"

text \<open>What a prayer-time fetch should return, stated over the service: the
  token the session holds (a fresh one from the login with credentials, the
  caller's without; none when the login is refused), and the calendar the
  service keeps for the requested mosque under that token.\<close>

definition session_token :: "service \<Rightarrow> string option \<Rightarrow> string option \<Rightarrow> string option \<Rightarrow> string option option" where
  "session_token S u p t =
     (case auth_mode_of u p t of
        CredentialLogin u' p' \<Rightarrow> map_option Some (map_of (sv_accounts S) (u', p'))
      | TokenOnly t' \<Rightarrow> Some t')"

definition prayer_spec :: "service \<Rightarrow> string option \<Rightarrow> string option \<Rightarrow> string option \<Rightarrow> string option \<Rightarrow> json" where
  "prayer_spec S m u p t =
     (case session_token S u p t of
        None \<Rightarrow> JNull
      | Some tok \<Rightarrow>
          if token_valid S (py_str tok)
          then (case map_of (sv_calendars S) (py_str m) of Some cal \<Rightarrow> cal | None \<Rightarrow> JNull)
          else JNull)"

text \<open>What a mosque search should return: the service's listing when the
  session holds a valid token, else the empty list.\<close>

definition listing_spec :: "service \<Rightarrow> string option \<Rightarrow> string option \<Rightarrow> string option \<Rightarrow> json list" where
  "listing_spec S u p t =
     (case session_token S u p t of
        Some (Some tok) \<Rightarrow> if token_valid S tok then sv_mosques S else []
      | _ \<Rightarrow> [])"

section \<open>The service's answers\<close>

lemma service_env_sel [simp]:
  "login_result (service_env S) = sv_login S"
  "neighborhood_result (service_env S) = sv_listing S"
  "keyword_result (service_env S) k = sv_listing S"
  "prayer_result (service_env S) c = (Inl NotAuthenticatedException, c_mosque c)"
  "http_result (service_env S) = sv_http S"
  by (simp_all add: service_env_def)

lemma service_direct:
  "fst (fetch_prayer_times_direct (service_env S) mid tok) =
     Inr (if token_valid S (py_str tok)
          then (case map_of (sv_calendars S) (py_str mid) of Some cal \<Rightarrow> cal | None \<Rightarrow> JNull)
          else JNull)"
  by (simp add: direct_cases Let_def sv_http_def url_mosque_id_url sv_prayer_times_def direct_headers_def
      split: option.split)

lemma service_direct_ok:
  assumes "token_valid S (py_str tok)" and "map_of (sv_calendars S) (py_str mid) = Some cal"
  shows "fetch_prayer_times_direct (service_env S) mid tok =
    (Inr cal, [HttpGet (prayer_times_url mid) (direct_headers tok) 30])"
  using assms by (simp add: direct_cases Let_def sv_http_def url_mosque_id_url sv_prayer_times_def
      direct_headers_def)

lemma sv_issued_Some: "sv_issued S (Some u) (Some p) = map_of (sv_accounts S) (u, p)"
  by (simp add: sv_issued_def)

lemma issued_token_valid: "map_of (sv_accounts S) cred = Some tok \<Longrightarrow> token_valid S tok"
  by (force simp: token_valid_def dest: map_of_SomeD)

text \<open>Against the service, the factory can only fail with a refused login.\<close>

lemma service_create_error:
  "create_authenticated_client (service_env S) lat lon m u p t = (Inl e, evs) \<Longrightarrow>
   e = BadCredentialsException"
  by (cases "py_truthy u \<and> py_truthy p")
     (auto simp: create_credentials create_token_only sv_login_def split: sum.splits option.splits)

text \<open>The two credential operations read the service's login directly.\<close>

lemma service_test_credentials:
  "fst (test_credentials (service_env S) u p) = Inr (sv_issued S u p \<noteq> None)"
  by (cases "sv_issued S u p")
     (auto simp: test_credentials_def lib_login_def sv_login_def finish_op_simps Let_def)

lemma service_get_token:
  "fst (get_mawaqit_api_token (service_env S) u p) = Inr (sv_issued S u p)"
  by (cases "sv_issued S u p")
     (auto simp: get_mawaqit_api_token_def lib_get_api_token_no_token sv_login_def finish_op_simps Let_def)

text \<open>A search through the factory's client is answered with the listing
  specification, whichever request the client makes.\<close>

lemma service_listing_call:
  "fst (finish_op L [] (factory_call (service_env S) lat lon m u p t (\<lambda>c. (sv_listing S c, c, [ev])))) =
     Inr (listing_spec S u p t)"
proof (cases "py_truthy u \<and> py_truthy p")
  case True
  then obtain u' p' where u: "u = Some u'" "u' \<noteq> []" and p: "p = Some p'" "p' \<noteq> []"
    by (auto simp: py_truthy_iff)
  with True show ?thesis
    by (cases "map_of (sv_accounts S) (u', p')")
       (auto simp: create_credentials finish_op_simps sv_login_def sv_issued_def sv_listing_def
         listing_spec_def session_token_def issued_token_valid)
next
  case False
  then have "auth_mode_of u p t = TokenOnly t" by (rule auth_mode_of_token_only)
  with False show ?thesis
    by (cases t) (auto simp: create_token_only finish_op_simps sv_listing_def listing_spec_def session_token_def)
qed

lemma service_neighborhood:
  "fst (all_mosques_neighborhood (service_env S) lat lon m u p t) = Inr (listing_spec S u p t)"
  unfolding all_mosques_neighborhood_def lib_all_mosques_neighborhood_def service_env_sel
  by (rule service_listing_call)

lemma service_keyword:
  "fst (all_mosques_by_keyword (service_env S) k u p t) =
     Inr (case k of None \<Rightarrow> [] | Some _ \<Rightarrow> listing_spec S u p t)"
proof (cases k)
  case None
  then show ?thesis
    by (cases "create_authenticated_client (service_env S) None None None u p t")
       (auto simp: all_mosques_by_keyword_def finish_op_simps dest: service_create_error split: sum.split)
next
  case (Some kw)
  show ?thesis
    unfolding Some all_mosques_by_keyword_factory_call lib_fetch_mosques_by_keyword_def option.case
      service_env_sel
    by (rule service_listing_call)
qed

section \<open>Properties of the wrapper against the service\<close>

text \<open>
  C22. Against the concrete service, every operation of the module implements its
  service-level specification on every input, and none raises:
  \<^verbatim>\<open>test_credentials\<close> answers whether the service issues a token for the pair,
  \<^verbatim>\<open>get_mawaqit_api_token\<close> returns that token; the two searches return the
  service's listing when the session holds a valid token (fresh from the login
  when credentials are given, the caller's otherwise) and the empty list
  otherwise, the keyword search also when no keyword is given; and
  \<^verbatim>\<open>fetch_prayer_times\<close> returns the calendar the service keeps for the requested
  mosque under the session's token, \<^verbatim>\<open>None\<close> when the login is refused, the
  token is not valid, or the mosque is unknown.
\<close>

theorem service_operations_refine:
  "fst (test_credentials (service_env S) u p) = Inr (sv_issued S u p \<noteq> None)
   \<and> fst (get_mawaqit_api_token (service_env S) u p) = Inr (sv_issued S u p)
   \<and> fst (all_mosques_neighborhood (service_env S) lat lon m u p t) = Inr (listing_spec S u p t)
   \<and> fst (all_mosques_by_keyword (service_env S) k u p t) =
       Inr (case k of None \<Rightarrow> [] | Some _ \<Rightarrow> listing_spec S u p t)
   \<and> fst (fetch_prayer_times (service_env S) lat lon m u p t) = Inr (prayer_spec S m u p t)"
proof -
  have fetch: "fst (fetch_prayer_times (service_env S) lat lon m u p t) = Inr (prayer_spec S m u p t)"
  proof -
    txt \<open>The library's request is always refused, so a fetch whose factory succeeds
      returns what the direct request to the client's mosque returns.\<close>
    have service_fallback: "fst (fetch_prayer_times (service_env S) lat lon m u p t) =
        fst (fetch_prayer_times_direct (service_env S) m (c_token c))"
      if c: "create_authenticated_client (service_env S) lat lon m u p t = (Inr c, evs)"
        and m: "c_mosque c = m" for c evs
    proof -
      obtain r' evs'' where d: "fetch_prayer_times_direct (service_env S) m (c_token c) = (r', evs'')"
        by fastforce
      moreover from d service_direct [of S m "c_token c"] obtain v where "r' = Inr v" by auto
      ultimately show ?thesis
        using fetch_fallback [OF c, of "c_mosque c"] m by (simp add: finish_op_simps Let_def)
    qed
    show ?thesis
    proof (cases "py_truthy u \<and> py_truthy p")
      case True
      then obtain u' p' where u: "u = Some u'" "u' \<noteq> []" and p: "p = Some p'" "p' \<noteq> []"
        by (auto simp: py_truthy_iff)
      show ?thesis
      proof (cases "map_of (sv_accounts S) (u', p')")
        case None
        with True u p show ?thesis
          by (simp add: create_credentials fetch_no_client finish_op_simps sv_login_def sv_issued_def prayer_spec_def
              session_token_def)
      next
        case (Some tok)
        with True u p have "create_authenticated_client (service_env S) lat lon m u p t =
            (Inr (new_client lat lon m u p (Some tok)), snd (create_authenticated_client (service_env S) lat lon m u p t))"
          by (simp add: create_credentials sv_login_def sv_issued_def)
        from service_fallback [OF this] Some u p show ?thesis
          by (simp add: service_direct prayer_spec_def session_token_def)
      qed
    next
      case False
      have mode: "auth_mode_of u p t = TokenOnly t"
        using False by (rule auth_mode_of_token_only)
      from False have "create_authenticated_client (service_env S) lat lon m u p t =
          (Inr (new_client lat lon m None None t), snd (create_authenticated_client (service_env S) lat lon m u p t))"
        by (simp add: create_token_only)
      from service_fallback [OF this] mode show ?thesis
        by (simp add: service_direct prayer_spec_def session_token_def)
    qed
  qed
  then show ?thesis
    by (simp add: service_test_credentials service_get_token service_neighborhood service_keyword)
qed

text \<open>
  C12. The point of the fresh login (spec section 4.1): with a credential pair the
  service accepts, the fetch returns the mosque's calendar whatever token the
  caller passes, stale, revoked or none; the one direct request carries the token
  the login has just issued.
\<close>

theorem service_fresh_login_beats_stale_token:
  assumes "u \<noteq> []" and "p \<noteq> []" and acc: "map_of (sv_accounts S) (u, p) = Some tok"
    and cal: "map_of (sv_calendars S) mid = Some cal"
  shows "fetch_prayer_times (service_env S) lat lon (Some mid) (Some u) (Some p) t =
    (Inr cal,
     [Log Debug ''Creating client with credentials, will perform fresh login'' [],
      Construct (new_client lat lon (Some mid) (Some u) (Some p) None), Login (Some u) (Some p),
      Log Debug ''Fresh login succeeded, token obtained'' [], CallPrayerTimes,
      fallback_warning (Some mid), HttpGet (prayer_times_url (Some mid)) (direct_headers (Some tok)) 30,
      Close])"
proof -
  have c: "create_authenticated_client (service_env S) lat lon (Some mid) (Some u) (Some p) t =
     (Inr (new_client lat lon (Some mid) (Some u) (Some p) (Some tok)),
      [Log Debug ''Creating client with credentials, will perform fresh login'' [],
       Construct (new_client lat lon (Some mid) (Some u) (Some p) None), Login (Some u) (Some p),
       Log Debug ''Fresh login succeeded, token obtained'' []])"
    using assms by (simp add: create_credentials sv_login_def sv_issued_def)
  have d: "fetch_prayer_times_direct (service_env S) (Some mid) (Some tok) =
      (Inr cal, [HttpGet (prayer_times_url (Some mid)) (direct_headers (Some tok)) 30])"
    using issued_token_valid [OF acc] cal by (simp add: service_direct_ok)
  show ?thesis
    using fetch_fallback [OF c, of "Some mid"] d by (simp add: finish_op_simps Let_def)
qed

theorem service_fresh_login_beats_stale_token_witness:
  "''user'' \<noteq> [] \<and> ''pw'' \<noteq> []
   \<and> map_of (sv_accounts \<lparr>sv_accounts = [((''user'', ''pw''), ''fresh'')], sv_calendars = [(''m1'', JStr ''05:10'')], sv_mosques = []\<rparr>) (''user'', ''pw'') = Some ''fresh''
   \<and> map_of (sv_calendars \<lparr>sv_accounts = [((''user'', ''pw''), ''fresh'')], sv_calendars = [(''m1'', JStr ''05:10'')], sv_mosques = []\<rparr>) ''m1'' = Some (JStr ''05:10'')
   \<and> fst (fetch_prayer_times (service_env \<lparr>sv_accounts = [((''user'', ''pw''), ''fresh'')], sv_calendars = [(''m1'', JStr ''05:10'')], sv_mosques = []\<rparr>)
        None None (Some ''m1'') (Some ''user'') (Some ''pw'') (Some ''stale'')) = Inr (JStr ''05:10'')"
  using service_fresh_login_beats_stale_token [where S = "\<lparr>sv_accounts = [((''user'', ''pw''), ''fresh'')], sv_calendars = [(''m1'', JStr ''05:10'')], sv_mosques = []\<rparr>"
      and u = "''user''" and p = "''pw''" and tok = "''fresh''" and mid = "''m1''" and cal = "JStr ''05:10''"
      and lat = None and lon = None and t = "Some ''stale''"]
  by simp

end
