(* ===== verification/Spec2Isabelle.thy ===== *)
theory Spec2Isabelle
  imports FetchMachine Service
begin

text \<open>
  \<^bold>\<open>A verification model of the MAWAQIT wrapper.\<close>
  The program is \<^verbatim>\<open>src/custom_components/mawaqit/mawaqit_wrapper.py\<close>, the
  module through which the Home Assistant integration talks to the MAWAQIT
  prayer-times service. It has three parts, which the theories model one each:

  \<^item> the Session Factory \<^verbatim>\<open>_create_authenticated_client\<close> (lines 18--56):
    \<^theory_text>\<open>Factory\<close>, definition \<open>create_authenticated_client\<close>;
  \<^item> the Direct Fetch Fallback \<^verbatim>\<open>_fetch_prayer_times_direct\<close> (lines 149--178):
    \<^theory_text>\<open>Direct\<close>, definitions \<open>prayer_times_url\<close>, \<open>direct_headers\<close>,
    \<open>fetch_prayer_times_direct\<close>;
  \<^item> the Operation Wrappers \<^verbatim>\<open>test_credentials\<close>, \<^verbatim>\<open>get_mawaqit_api_token\<close>,
    \<^verbatim>\<open>all_mosques_neighborhood\<close>, \<^verbatim>\<open>all_mosques_by_keyword\<close> (lines 59--146):
    \<^theory_text>\<open>Wrappers\<close>, one definition each over the shared
    \<^verbatim>\<open>try\<close>/\<^verbatim>\<open>except\<close>/\<^verbatim>\<open>finally\<close> skeleton \<open>finish_op\<close> and \<open>close_if_set\<close>;
    and \<^verbatim>\<open>fetch_prayer_times\<close> (lines 181--219): \<^theory_text>\<open>PrayerTimes\<close>.

  Each wrapper calls the factory once (the first two build their client
  directly), makes one request through the client (the prayer-time fetch may add
  one direct request) and closes the client in its \<^verbatim>\<open>finally\<close>.

  \<^bold>\<open>How the code is modelled.\<close>
  \<^item> \<^theory_text>\<open>Prelude\<close>: Python's exception classes as the datatype \<open>exn\<close>, each
    \<^verbatim>\<open>except\<close> clause as a class test (\<open>is_auth_exn\<close>, \<open>is_network_exn\<close>,
    \<open>is_client_error\<close>, \<open>is_exception\<close>), truthiness \<open>py_truthy\<close>, f-string
    rendering \<open>py_str\<close> (\<^verbatim>\<open>None\<close> becomes the text \<^verbatim>\<open>None\<close>), JSON values
    (\<open>JNull\<close> is also Python's \<^verbatim>\<open>None\<close>).
  \<^item> \<^theory_text>\<open>Client\<close>: the collaborators, which are not in the repository and are
    modelled from the spec: the \<^verbatim>\<open>AsyncMawaqitClient\<close> fields as the record
    \<open>client\<close> and the methods the wrapper calls (\<open>lib_login\<close>,
    \<open>lib_get_api_token\<close>, which logs in only when no token is set, the three
    listing requests, \<open>lib_close\<close>). The network is an oracle, the record
    \<open>env\<close>: how the service answers each request. No theorem restricts \<open>env\<close>
    beyond what its hypotheses name, so every result holds for every behaviour of
    the service.
  \<^item> Effects: every operation returns its outcome, \<open>Inl\<close> the exception that
    leaves it, and its trace, the list of \<open>event\<close>s it caused in order: client
    construction, login, library requests, the direct HTTP GET (URL, headers,
    timeout), close, and each \<^verbatim>\<open>_LOGGER\<close> call with its format string and
    arguments. Asynchrony adds nothing here: each operation is one sequential
    coroutine with its own client.
  \<^item> The wrapper has no loops: every operation is a non-recursive definition
    and evaluates by \<open>simp\<close>. The one recursive definition is the run of the
    reference state machine \<open>fetch_run\<close> (\<^theory_text>\<open>FetchMachine\<close>), a
    \<^theory_text>\<open>function\<close> whose termination is proved by the measure \<open>phase_rank\<close>
    (3, 2, 1, 0 for \<open>Acquire\<close>, the two attempts, \<open>Result\<close>). That
    termination is a property of the reference design, not of the code, which has
    no loop, so no claim states it.
  \<^item> Cancellation: every oracle answer may be \<open>CancelledError\<close>, so each
    \<^verbatim>\<open>await\<close> of the source (login, library request, direct GET) is a point
    where it can arise; it is a \<^verbatim>\<open>BaseException\<close>, caught by no clause of the
    module.

  \<^bold>\<open>Abstract specifications.\<close>
  \<^item> \<^theory_text>\<open>Session\<close>: the Session Handle contract (spec sections 3 and 4.2) as a
    deterministic automaton \<open>session_step\<close>/\<open>session_run\<close>; a trace that takes it
    from \<open>NoSession\<close> to \<open>Released\<close> constructs one client, uses it only while
    open, and closes it exactly once (\<open>released_bracketed\<close>,
    \<open>bracketed_close_once\<close>); \<open>live_calls\<close> is the contract at every
    intermediate state.
  \<^item> \<^theory_text>\<open>Protocol\<close>: the fetch-with-fallback protocol of spec sections 4.3 and 9
    as the inductive step relation \<open>fb_step\<close> and its traces \<open>fb_trace\<close>; rule
    induction shows it allows at most one direct request, only after the primary
    attempt. \<open>fetch_trace_protocol\<close> is the refinement: every trace of
    \<open>fetch_prayer_times\<close> is a trace of the protocol.
  \<^item> \<^theory_text>\<open>FetchMachine\<close>: the design of spec section 9, the fetch as an explicit
    state value \<open>Acquire \<rightarrow> PrimaryAttempt \<rightarrow> FallbackAttempt \<rightarrow> Result\<close>, with
    one step \<open>fetch_step\<close> per state on the same component definitions, its
    run, and its reachable configurations \<open>fetch_reach\<close> (inductive).
  \<^item> \<^theory_text>\<open>Modes\<close>: the other design of spec section 9, the factory's choice as
    the variant \<open>CredentialLogin\<close>/\<open>TokenOnly\<close> read off the arguments by
    \<open>auth_mode_of\<close> and run by \<open>acquire_session\<close>; \<open>client_wf\<close>, the clients
    the factory may hand out.
  \<^item> \<open>normalised\<close> (in \<^theory_text>\<open>Wrappers\<close>): the caller-facing contract of spec
    section 6, no authentication or network exception leaves an operation.

  \<^bold>\<open>What is proved.\<close> The claims C1--C37 are marked in the theories.
  \<^item> Across the components (this theory): every operation keeps the session
    contract (C1) and the error contract (C2); the one path on which a client is
    left open, a cancelled login in the factory, and that a cancellation anywhere
    later still closes it (C34); that no request is made on a client that is not
    open, on any path (C35); the exact ordered requests through the client, a
    fresh login first (C36); and the bound on server requests (C37).
  \<^item> \<^theory_text>\<open>Factory\<close>: the fresh-login invariant (C3), the token-only mode without
    login (C4), the close before re-raising a failed login (C11), and that a
    cancelled login leaks the client (C25).
  \<^item> \<^theory_text>\<open>Modes\<close>: the factory is the two-variant design up to its debug lines
    (C32), and every client it returns is well formed and carries the caller's
    coordinates, mosque and credentials or token (C33).
  \<^item> \<^theory_text>\<open>PrayerTimes\<close>: at most one fallback, after the primary attempt, by
    refinement of the protocol (C5); where the fallback goes (C6); that only the
    not-authenticated condition triggers it (C7); end-to-end scenarios 1--3
    (C8--C10); the timeout of the direct request (C24); the fallback without
    mosque or token (C27); an undecodable 200 answer escaping the module (C29).
  \<^item> \<^theory_text>\<open>FetchMachine\<close>: the state machine computes exactly what the
    exception-driven code computes (C30); and the invariant of its reachable
    configurations, which ties each phase to the session automaton and to the
    protocol (C31).
  \<^item> \<^theory_text>\<open>Wrappers\<close>: \<^verbatim>\<open>test_credentials\<close> (C13, C14),
    \<^verbatim>\<open>get_mawaqit_api_token\<close> (C15), scenario 4 (C16), the keyword search
    without keyword (C17) and with one (C19), the neighbourhood listing (C18), and
    the login a keyword search makes although it searches nothing (C26).
  \<^item> \<^theory_text>\<open>Direct\<close>: the one request (C20), each response branch (C21, C23,
    C28).

  \<^bold>\<open>A concrete service.\<close> \<^theory_text>\<open>Service\<close> replaces the oracle by a model of
  the upstream service of spec section 6 (\<open>service_env\<close>): a table of accounts
  with the token each login issues, the calendar of each mosque, a listing that
  needs a valid token, a library prayer-time request it refuses as not
  authenticated (it does not accept the library's header convention), and the
  REST endpoint, which reads the mosque identifier back out of the URL
  (\<open>url_mosque_id\<close>) and checks the \<^verbatim>\<open>Authorization\<close> header. Against it,
  every operation implements its service-level specification
  (\<open>sv_issued\<close>, \<open>listing_spec\<close>, \<open>prayer_spec\<close>) on every input and none raises
  (C22), and the fresh login defeats a stale token (C12).

  \<^bold>\<open>Plan.\<close> Done: the factory, the fallback protocol, the other wrappers and
  the direct fetch; the two designs of spec section 9 with their equivalence and
  invariant; cancellation at every \<^verbatim>\<open>await\<close> (C34,
  C35), ordering (C36) and frame properties (C33); a concrete service against
  which the end-to-end behaviour is proved (C12, C22). What is left is outside the
  program, below.

  \<^bold>\<open>Not modelled.\<close>
  \<^item> The library's internals (HTTP sessions, login cryptography, the JSON schema
    of the payloads): the library is not in the repository; its methods are
    modelled from the spec and the source comments, its answers are the oracle.
  \<^item> \<^verbatim>\<open>client.close()\<close> raising: \<open>lib_close\<close> never raises. In Python an
    exception from the \<^verbatim>\<open>close()\<close> in a \<^verbatim>\<open>finally\<close> (or in the factory's
    \<^verbatim>\<open>except Exception\<close>) replaces the operation's outcome, so a raising close
    would falsify every result theorem here; the spec treats the close as the
    collaborator's release operation and says nothing of its failing, and the
    code does nothing about it. The traces, and with them the session theorems
    (C1, C34, C35), do not depend on it.
  \<^item> Timeouts of the library's own requests (the spec leaves them open, section 9)
    and logging beyond the recorded calls.
  \<^item> The Home Assistant config flow and entities that call this module: not among
    the repository's sources.
\<close>

section \<open>Properties across the components\<close>

text \<open>
  C1. Every operation releases its client exactly once: its trace runs the session
  automaton from \<open>NoSession\<close> to \<open>Released\<close> and holds exactly one close. For
  the two credential operations this holds on every path; for the three built on
  the factory it holds unless the factory's login with a truthy credential pair
  raised \<^verbatim>\<open>asyncio.CancelledError\<close> (C25), and so also when a cancellation
  interrupts the library request or the fallback.
\<close>

theorem operations_release_session:
  "session_run NoSession (snd (test_credentials E u p)) = Released
   \<and> count_list (snd (test_credentials E u p)) Close = 1
   \<and> session_run NoSession (snd (get_mawaqit_api_token E u p)) = Released
   \<and> count_list (snd (get_mawaqit_api_token E u p)) Close = 1
   \<and> (\<not> (py_truthy u \<and> py_truthy p \<and> login_result E u p = Inl CancelledError) \<longrightarrow>
        session_run NoSession (snd (all_mosques_neighborhood E lat lon m u p t)) = Released
      \<and> count_list (snd (all_mosques_neighborhood E lat lon m u p t)) Close = 1
      \<and> session_run NoSession (snd (all_mosques_by_keyword E k u p t)) = Released
      \<and> count_list (snd (all_mosques_by_keyword E k u p t)) Close = 1
      \<and> session_run NoSession (snd (fetch_prayer_times E lat lon m u p t)) = Released
      \<and> count_list (snd (fetch_prayer_times E lat lon m u p t)) Close = 1)"
  using test_credentials_session [of E u p] get_mawaqit_api_token_session [of E u p]
    all_mosques_neighborhood_session_cases [of E lat lon m u p t]
    all_mosques_by_keyword_session_cases [of E k u p t]
    fetch_prayer_times_session_cases [of E lat lon m u p t]
  by (simp add: released_close_once create_cancelled_iff)

text \<open>The witness is a fetch whose library request is cancelled: the hypothesis
  holds (no credentials, so no login), the result is the cancellation, and the
  client is still closed exactly once.\<close>

theorem operations_release_session_witness:
  "\<not> (py_truthy None \<and> py_truthy None
        \<and> login_result (stub_env (Inr ''tok'') (Inr []) (Inl CancelledError, None) (Inl ClientError)) None None
          = Inl CancelledError)
   \<and> fst (fetch_prayer_times (stub_env (Inr ''tok'') (Inr []) (Inl CancelledError, None) (Inl ClientError))
      None None None None None None) = Inl CancelledError
   \<and> session_run NoSession (snd (fetch_prayer_times (stub_env (Inr ''tok'') (Inr []) (Inl CancelledError, None)
      (Inl ClientError)) None None None None None None)) = Released
   \<and> count_list (snd (fetch_prayer_times (stub_env (Inr ''tok'') (Inr []) (Inl CancelledError, None)
      (Inl ClientError)) None None None None None None)) Close = 1"
proof -
  have c: "create_authenticated_client (stub_env (Inr ''tok'') (Inr []) (Inl CancelledError, None) (Inl ClientError))
      None None None None None None =
     (Inr (new_client None None None None None None),
      [Log Debug ''Creating client with existing token only (no credentials)'' [],
       Construct (new_client None None None None None None)])"
    by (simp add: create_token_only)
  have f: "fst (fetch_prayer_times (stub_env (Inr ''tok'') (Inr []) (Inl CancelledError, None) (Inl ClientError))
      None None None None None None) = Inl CancelledError"
    using c by (simp add: fetch_primary finish_op_simps)
  show ?thesis
    using f operations_release_session [where E = "stub_env (Inr ''tok'') (Inr []) (Inl CancelledError, None) (Inl ClientError)"
        and lat = None and lon = None and m = None and u = None and p = None and t = None and k = None]
    by simp
qed

text \<open>
  C2. No authentication-class or network-class exception leaves any of the five
  operations: each such failure becomes the operation's empty result, and only
  unclassified exceptions propagate.
\<close>

theorem operations_normalise_errors:
  "normalised (fst (test_credentials E u p))
   \<and> normalised (fst (get_mawaqit_api_token E u p))
   \<and> normalised (fst (all_mosques_neighborhood E lat lon m u p t))
   \<and> normalised (fst (all_mosques_by_keyword E k u p t))
   \<and> normalised (fst (fetch_prayer_times E lat lon m u p t))"
  unfolding test_credentials_def get_mawaqit_api_token_def all_mosques_neighborhood_def
    all_mosques_by_keyword_def fetch_prayer_times_def Let_def
  by (simp add: finish_op_normalised split: prod.split)

theorem operations_normalise_errors_witness:
  "normalised (fst (fetch_prayer_times (stub_env (Inr ''tok'') (Inr []) (Inl ConnectionError, None)
      (Inl ClientError)) None None None None None None))"
  using operations_normalise_errors [where E = "stub_env (Inr ''tok'') (Inr []) (Inl ConnectionError, None)
      (Inl ClientError)" and lat = None and lon = None and m = None and u = None and p = None and t = None]
  by simp

text \<open>
  C34. A client is left open in exactly one case: the three operations built on
  the factory end with the session released, except when the factory's login with
  a truthy credential pair raised \<^verbatim>\<open>asyncio.CancelledError\<close>, where the session
  stays live; a cancellation anywhere later still closes the client.
\<close>

theorem operations_release_unless_cancelled:
  "session_run NoSession (snd (all_mosques_neighborhood E lat lon m u p t)) =
     (if py_truthy u \<and> py_truthy p \<and> login_result E u p = Inl CancelledError then Live else Released)
   \<and> session_run NoSession (snd (all_mosques_by_keyword E k u p t)) =
     (if py_truthy u \<and> py_truthy p \<and> login_result E u p = Inl CancelledError then Live else Released)
   \<and> session_run NoSession (snd (fetch_prayer_times E lat lon m u p t)) =
     (if py_truthy u \<and> py_truthy p \<and> login_result E u p = Inl CancelledError then Live else Released)"
  by (simp add: all_mosques_neighborhood_session_cases all_mosques_by_keyword_session_cases
      fetch_prayer_times_session_cases create_cancelled_iff)

text \<open>
  C35. No operation makes a request on a client that is not open: at every
  point of every operation's trace, on every path including the cancelled ones,
  a request through the client comes after its construction and before its
  close.
\<close>

theorem operations_call_only_live_client:
  "live_calls NoSession (snd (test_credentials E u p))
   \<and> live_calls NoSession (snd (get_mawaqit_api_token E u p))
   \<and> live_calls NoSession (snd (all_mosques_neighborhood E lat lon m u p t))
   \<and> live_calls NoSession (snd (all_mosques_by_keyword E k u p t))
   \<and> live_calls NoSession (snd (fetch_prayer_times E lat lon m u p t))"
  by (simp add: not_misused_live_calls test_credentials_session get_mawaqit_api_token_session
      all_mosques_neighborhood_session_cases all_mosques_by_keyword_session_cases
      fetch_prayer_times_session_cases)

theorem operations_call_only_live_client_witness:
  "snd (fetch_prayer_times (stub_env (Inl CancelledError) (Inr []) (Inr JNull, None) (Inl ClientError))
      None None None (Some ''user'') (Some ''pw'') None) =
     [Log Debug ''Creating client with credentials, will perform fresh login'' [],
      Construct (new_client None None None (Some ''user'') (Some ''pw'') None),
      Login (Some ''user'') (Some ''pw'')]
   \<and> live_calls NoSession
     [Log Debug ''Creating client with credentials, will perform fresh login'' [],
      Construct (new_client None None None (Some ''user'') (Some ''pw'') None),
      Login (Some ''user'') (Some ''pw'')]"
proof -
  have f: "snd (fetch_prayer_times (stub_env (Inl CancelledError) (Inr []) (Inr JNull, None) (Inl ClientError))
      None None None (Some ''user'') (Some ''pw'') None) =
     [Log Debug ''Creating client with credentials, will perform fresh login'' [],
      Construct (new_client None None None (Some ''user'') (Some ''pw'') None),
      Login (Some ''user'') (Some ''pw'')]"
    by (simp add: create_credentials fetch_no_client finish_op_simps)
  show ?thesis
    using f operations_call_only_live_client [where E = "stub_env (Inl CancelledError) (Inr []) (Inr JNull, None) (Inl ClientError)"
        and lat = None and lon = None and m = None and u = "Some ''user''" and p = "Some ''pw''" and t = None]
    by simp
qed

text \<open>
  C36. The requests each operation makes through its client, in order: one
  login for the two credential operations; for the three built on the factory, a
  fresh login first whenever the credential pair is truthy (even with a token
  given), then, if the factory succeeded, exactly the operation's one domain
  request (none for a keyword search without a keyword).
\<close>

theorem operations_client_requests:
  "filter is_client_call (snd (test_credentials E u p)) = [Login u p]
   \<and> filter is_client_call (snd (get_mawaqit_api_token E u p)) = [Login u p]
   \<and> filter is_client_call (snd (all_mosques_neighborhood E lat lon m u p t)) =
       (if py_truthy u \<and> py_truthy p
        then Login u p # (case login_result E u p of Inl _ \<Rightarrow> [] | Inr _ \<Rightarrow> [CallNeighborhood])
        else [CallNeighborhood])
   \<and> filter is_client_call (snd (all_mosques_by_keyword E k u p t)) =
       (if py_truthy u \<and> py_truthy p
        then Login u p # (case login_result E u p of Inl _ \<Rightarrow> [] | Inr _ \<Rightarrow> (case k of None \<Rightarrow> [] | Some kw \<Rightarrow> [CallKeyword kw]))
        else (case k of None \<Rightarrow> [] | Some kw \<Rightarrow> [CallKeyword kw]))
   \<and> filter is_client_call (snd (fetch_prayer_times E lat lon m u p t)) =
       (if py_truthy u \<and> py_truthy p
        then Login u p # (case login_result E u p of Inl _ \<Rightarrow> [] | Inr _ \<Rightarrow> [CallPrayerTimes])
        else [CallPrayerTimes])"
proof (intro conjI)
  show "filter is_client_call (snd (test_credentials E u p)) = [Login u p]"
    by (simp add: test_credentials_def lib_login_def finish_op_filter Let_def split: sum.split)
  show "filter is_client_call (snd (get_mawaqit_api_token E u p)) = [Login u p]"
    by (simp add: get_mawaqit_api_token_def lib_get_api_token_no_token finish_op_filter Let_def
        split: sum.split)
  show "filter is_client_call (snd (all_mosques_neighborhood E lat lon m u p t)) =
       (if py_truthy u \<and> py_truthy p
        then Login u p # (case login_result E u p of Inl _ \<Rightarrow> [] | Inr _ \<Rightarrow> [CallNeighborhood])
        else [CallNeighborhood])"
    by (cases "py_truthy u \<and> py_truthy p")
       (simp_all add: all_mosques_neighborhood_def create_credentials create_token_only finish_op_filter
         lib_defs split: sum.split)
  show "filter is_client_call (snd (all_mosques_by_keyword E k u p t)) =
       (if py_truthy u \<and> py_truthy p
        then Login u p # (case login_result E u p of Inl _ \<Rightarrow> [] | Inr _ \<Rightarrow> (case k of None \<Rightarrow> [] | Some kw \<Rightarrow> [CallKeyword kw]))
        else (case k of None \<Rightarrow> [] | Some kw \<Rightarrow> [CallKeyword kw]))"
    by (cases k; cases "py_truthy u \<and> py_truthy p")
       (simp_all add: all_mosques_by_keyword_def create_credentials create_token_only finish_op_filter
         lib_defs split: sum.split)
  show "filter is_client_call (snd (fetch_prayer_times E lat lon m u p t)) =
       (if py_truthy u \<and> py_truthy p
        then Login u p # (case login_result E u p of Inl _ \<Rightarrow> [] | Inr _ \<Rightarrow> [CallPrayerTimes])
        else [CallPrayerTimes])"
  proof -
    have "filter is_client_call (snd (fetch_prayer_times E lat lon m u p t)) =
       filter is_client_call (snd (create_authenticated_client E lat lon m u p t)) @
       (case fst (create_authenticated_client E lat lon m u p t) of Inl _ \<Rightarrow> [] | Inr _ \<Rightarrow> [CallPrayerTimes])"
      by (auto simp: finish_op_filter direct_client_calls split: fetch_prayer_times_split)
    then show ?thesis
      by (cases "py_truthy u \<and> py_truthy p")
         (simp_all add: create_client_calls create_credentials create_token_only split: sum.split)
  qed
qed

text \<open>
  C37. Every operation is bounded in the requests that reach a server, its only
  suspension points: one for the two credential operations, at most two for the
  mosque searches, at most three for the prayer-time fetch (login, library
  request, one direct request).
\<close>

theorem operations_request_bound:
  "length (filter is_network_ev (snd (test_credentials E u p))) = 1
   \<and> length (filter is_network_ev (snd (get_mawaqit_api_token E u p))) = 1
   \<and> length (filter is_network_ev (snd (all_mosques_neighborhood E lat lon m u p t))) \<le> 2
   \<and> length (filter is_network_ev (snd (all_mosques_by_keyword E k u p t))) \<le> 2
   \<and> length (filter is_network_ev (snd (fetch_prayer_times E lat lon m u p t))) \<le> 3"
proof (intro conjI)
  show "length (filter is_network_ev (snd (test_credentials E u p))) = 1"
    by (simp add: test_credentials_def lib_login_def finish_op_filter Let_def split: sum.split)
  show "length (filter is_network_ev (snd (get_mawaqit_api_token E u p))) = 1"
    by (simp add: get_mawaqit_api_token_def lib_get_api_token_no_token finish_op_filter Let_def
        split: sum.split)
  show "length (filter is_network_ev (snd (all_mosques_neighborhood E lat lon m u p t))) \<le> 2"
    unfolding all_mosques_neighborhood_def
    by (rule order_trans [OF factory_call_network [where k = 1]]) (simp_all add: lib_defs)
  show "length (filter is_network_ev (snd (all_mosques_by_keyword E k u p t))) \<le> 2"
    unfolding all_mosques_by_keyword_factory_call
    by (rule order_trans [OF factory_call_network [where k = 1]]) (simp_all add: lib_defs split: option.split)
  show "length (filter is_network_ev (snd (fetch_prayer_times E lat lon m u p t))) \<le> 3"
    using create_network [of E lat lon m u p t] direct_network
    by (auto simp: finish_op_filter direct_network split: fetch_prayer_times_split)
qed

end
